theory Spec2Isabelle
  imports Main "HOL-Library.AList" "HOL-Library.Monad_Syntax"
begin

section \<open>Runtime values\<close>

text \<open>
  The values that \<^verbatim>\<open>JSON.parse\<close> produces. A JSON number is carried as an integer: the
  program never computes with the numbers it reads, it only tests them for truthiness and
  prints them. An object is the list of its own properties in insertion order, each key
  occurring once (\<^verbatim>\<open>JSON.parse\<close> keeps the last of two equal keys).
\<close>

datatype json =
    JNull
  | JBool bool
  | JNum int
  | JStr string
  | JArr "json list"
  | JObj "(string \<times> json) list"

text \<open>
  Thrown values. \<open>Error\<close> stands for the built-in \<^verbatim>\<open>Error\<close> and its subclasses
  (\<^verbatim>\<open>TypeError\<close>, \<^verbatim>\<open>SyntaxError\<close>, library exceptions), carrying the message;
  \<open>ApiError\<close> is the class of \<^verbatim>\<open>src/lib/api-error.ts\<close> with its message, status code and
  details.
\<close>

datatype error =
    Error string
  | ApiError string nat "string list"

text \<open>JavaScript truthiness of a JSON value, as tested by \<^verbatim>\<open>!x\<close>.\<close>

fun truthy :: "json \<Rightarrow> bool" where
  "truthy JNull = False"
| "truthy (JBool b) = b"
| "truthy (JNum n) = (n \<noteq> 0)"
| "truthy (JStr s) = (s \<noteq> [])"
| "truthy (JArr xs) = True"
| "truthy (JObj fs) = True"

text \<open>
  A property read \<^verbatim>\<open>v.k\<close>: \<open>None\<close> is \<^verbatim>\<open>undefined\<close>. Reading a property of
  \<^verbatim>\<open>null\<close> throws a \<^verbatim>\<open>TypeError\<close>. None of the keys the program reads (\<^verbatim>\<open>subject\<close>,
  \<^verbatim>\<open>body\<close>, \<^verbatim>\<open>headline\<close>, \<^verbatim>\<open>description\<close>, \<^verbatim>\<open>hashtags\<close>, \<^verbatim>\<open>cta\<close> and the credential
  keys) is a property of a string, number, boolean or array.
\<close>

fun get_prop :: "json \<Rightarrow> string \<Rightarrow> error + json option" where
  "get_prop (JObj fs) k = Inr (map_of fs k)"
| "get_prop JNull k = Inl (Error (''Cannot read properties of null (reading '' @ k @ '')''))"
| "get_prop v k = Inr None"

text \<open>\<^verbatim>\<open>!x\<close> for a value that may be \<^verbatim>\<open>undefined\<close>.\<close>

fun falsy :: "json option \<Rightarrow> bool" where
  "falsy None = True"
| "falsy (Some v) = (\<not> truthy v)"

subsection \<open>Printing values\<close>

fun digit_char :: "nat \<Rightarrow> char" where
  "digit_char n = char_of (48 + n)"

fun nat_to_string :: "nat \<Rightarrow> string" where
  "nat_to_string n = (if n < 10 then [digit_char n] else nat_to_string (n div 10) @ [digit_char (n mod 10)])"

definition int_to_string :: "int \<Rightarrow> string" where
  "int_to_string i = (if i < 0 then CHR ''-'' # nat_to_string (nat (- i)) else nat_to_string (nat i))"

text \<open>\<^verbatim>\<open>Array.prototype.join\<close>: the parts separated by \<open>sep\<close>.\<close>

fun join :: "string \<Rightarrow> string list \<Rightarrow> string" where
  "join sep [] = []"
| "join sep [x] = x"
| "join sep (x # y # ys) = x @ sep @ join sep (y # ys)"

text \<open>
  The string an array element contributes to \<^verbatim>\<open>join\<close>: \<^verbatim>\<open>null\<close> gives the empty string,
  a nested array its own \<^verbatim>\<open>join(",")\<close>, an object \<^verbatim>\<open>[object Object]\<close>.
\<close>

fun join_elem :: "json \<Rightarrow> string" where
  "join_elem JNull = []"
| "join_elem (JBool b) = (if b then ''true'' else ''false'')"
| "join_elem (JNum n) = int_to_string n"
| "join_elem (JStr s) = s"
| "join_elem (JArr xs) = join '','' (map join_elem xs)"
| "join_elem (JObj fs) = ''[object Object]''"

section \<open>Content generator (\<^verbatim>\<open>src/lib/ai/content-generator.ts\<close>)\<close>

text \<open>
  What \<^verbatim>\<open>await this.model.invoke(input)\<close> does: it throws (network, timeout, quota), or it
  returns the reply text. The prompt text reaches only the model, whose reply is arbitrary,
  so the reply is given from outside. \<^verbatim>\<open>JSON.parse\<close> is the runtime's and is a parameter
  \<open>jp\<close> of every function that calls it: \<open>None\<close> is a thrown \<^verbatim>\<open>SyntaxError\<close>.
\<close>

datatype llm_outcome = LLMThrows string | LLMReply string

type_synonym json_parse = "string \<Rightarrow> json option"

text \<open>
  \<^verbatim>\<open>content.match(/\{[\s\S]*\}/)\<close>, element 0 of the match: the regular expression is
  not global and its star is greedy, so the match starts at the first opening brace that
  has a closing brace somewhere after it, which is the first opening brace of the text,
  and ends at the last closing brace of the text. \<open>None\<close> is \<^verbatim>\<open>null\<close> (no match).
\<close>

definition json_match :: "string \<Rightarrow> string option" where
  "json_match content =
     (case dropWhile (\<lambda>c. c \<noteq> CHR ''{'') content of
        [] \<Rightarrow> None
      | b # rest \<Rightarrow>
          (case dropWhile (\<lambda>c. c \<noteq> CHR ''}'') (rev rest) of
             [] \<Rightarrow> None
           | inner \<Rightarrow> Some (b # rev inner)))"

text \<open>
  The first lines of every \<^verbatim>\<open>try\<close> block of the generator (lines 63-71, 144-152,
  218-226, 280-288, the same text four times): invoke the model, match, parse.
\<close>

definition extract_json :: "json_parse \<Rightarrow> llm_outcome \<Rightarrow> error + json" where
  "extract_json jp response =
     (case response of
        LLMThrows m \<Rightarrow> Inl (Error m)
      | LLMReply content \<Rightarrow>
          (case json_match content of
             None \<Rightarrow> Inl (Error ''No JSON found in AI response'')
           | Some span \<Rightarrow>
               (case jp span of
                  None \<Rightarrow> Inl (Error ''Unexpected token in JSON'')
                | Some parsed \<Rightarrow> Inr parsed)))"

text \<open>
  \<^verbatim>\<open>generateEmailContent\<close>, lines 62-92. The \<^verbatim>\<open>try\<close> block first; the \<^verbatim>\<open>catch\<close>
  reports the cause to the error monitor and throws the fixed message in its place.
  On success the parsed object itself is returned.
\<close>

definition email_try :: "json_parse \<Rightarrow> llm_outcome \<Rightarrow> error + json" where
  "email_try jp response =
     (case extract_json jp response of
        Inl e \<Rightarrow> Inl e
      | Inr parsed \<Rightarrow>
          (case get_prop parsed ''subject'' of
             Inl e \<Rightarrow> Inl e
           | Inr subject \<Rightarrow>
               if falsy subject then Inl (Error ''Missing required fields in AI response'')
               else (case get_prop parsed ''body'' of
                       Inl e \<Rightarrow> Inl e
                     | Inr body \<Rightarrow>
                         if falsy body then Inl (Error ''Missing required fields in AI response'')
                         else Inr parsed)))"

definition generateEmailContent :: "json_parse \<Rightarrow> llm_outcome \<Rightarrow> error + json" where
  "generateEmailContent jp response =
     (case email_try jp response of
        Inl cause \<Rightarrow> Inl (Error ''Failed to generate email content. Please try again.'')
      | Inr content \<Rightarrow> Inr content)"

text \<open>
  \<^verbatim>\<open>generateSocialContent\<close>, lines 143-179. The platform selects only the prompt's length
  and style hints. \<^verbatim>\<open>parsed.hashtags?.join(" ") || ""\<close>: an absent or \<^verbatim>\<open>null\<close> value gives
  the empty string, an array its joined elements, and any other value has no \<^verbatim>\<open>join\<close>
  method, so that the call throws a \<^verbatim>\<open>TypeError\<close>. The returned object is built anew; a
  property whose value is \<^verbatim>\<open>undefined\<close> (\<^verbatim>\<open>cta\<close>) is left out, as serialisation does.
\<close>

datatype platform = Facebook | Instagram | Twitter | Linkedin

definition hashtags_description :: "json option \<Rightarrow> error + string" where
  "hashtags_description h =
     (case h of
        None \<Rightarrow> Inr []
      | Some JNull \<Rightarrow> Inr []
      | Some (JArr xs) \<Rightarrow> Inr (join '' '' (map join_elem xs))
      | Some v \<Rightarrow> Inl (Error ''parsed.hashtags?.join is not a function''))"

definition social_object :: "json \<Rightarrow> json option \<Rightarrow> string \<Rightarrow> json" where
  "social_object body cta description =
     JObj ((''body'', body) #
           (case cta of None \<Rightarrow> [] | Some c \<Rightarrow> [(''cta'', c)]) @
           [(''description'', JStr description)])"

definition social_try :: "json_parse \<Rightarrow> platform \<Rightarrow> llm_outcome \<Rightarrow> error + json" where
  "social_try jp pf response =
     (case extract_json jp response of
        Inl e \<Rightarrow> Inl e
      | Inr parsed \<Rightarrow>
          (case get_prop parsed ''body'' of
             Inl e \<Rightarrow> Inl e
           | Inr None \<Rightarrow> Inl (Error ''Missing required fields in AI response'')
           | Inr (Some body) \<Rightarrow>
               if \<not> truthy body then Inl (Error ''Missing required fields in AI response'')
               else (case get_prop parsed ''cta'' of
                       Inl e \<Rightarrow> Inl e
                     | Inr cta \<Rightarrow>
                         (case get_prop parsed ''hashtags'' of
                            Inl e \<Rightarrow> Inl e
                          | Inr h \<Rightarrow>
                              (case hashtags_description h of
                                 Inl e \<Rightarrow> Inl e
                               | Inr d \<Rightarrow> Inr (social_object body cta d))))))"

definition generateSocialContent :: "json_parse \<Rightarrow> platform \<Rightarrow> llm_outcome \<Rightarrow> error + json" where
  "generateSocialContent jp pf response =
     (case social_try jp pf response of
        Inl cause \<Rightarrow> Inl (Error ''Failed to generate social content. Please try again.'')
      | Inr content \<Rightarrow> Inr content)"

text \<open>\<^verbatim>\<open>generatePPCContent\<close>, lines 217-248.\<close>

definition ppc_try :: "json_parse \<Rightarrow> llm_outcome \<Rightarrow> error + json" where
  "ppc_try jp response =
     (case extract_json jp response of
        Inl e \<Rightarrow> Inl e
      | Inr parsed \<Rightarrow>
          (case get_prop parsed ''headline'' of
             Inl e \<Rightarrow> Inl e
           | Inr headline \<Rightarrow>
               if falsy headline then Inl (Error ''Missing required fields in AI response'')
               else (case get_prop parsed ''description'' of
                       Inl e \<Rightarrow> Inl e
                     | Inr description \<Rightarrow>
                         if falsy description
                         then Inl (Error ''Missing required fields in AI response'')
                         else Inr parsed)))"

definition generatePPCContent :: "json_parse \<Rightarrow> llm_outcome \<Rightarrow> error + json" where
  "generatePPCContent jp response =
     (case ppc_try jp response of
        Inl cause \<Rightarrow> Inl (Error ''Failed to generate PPC content. Please try again.'')
      | Inr content \<Rightarrow> Inr content)"

text \<open>\<^verbatim>\<open>generateSMSContent\<close>, lines 279-310.\<close>

definition sms_try :: "json_parse \<Rightarrow> llm_outcome \<Rightarrow> error + json" where
  "sms_try jp response =
     (case extract_json jp response of
        Inl e \<Rightarrow> Inl e
      | Inr parsed \<Rightarrow>
          (case get_prop parsed ''body'' of
             Inl e \<Rightarrow> Inl e
           | Inr body \<Rightarrow>
               if falsy body then Inl (Error ''Missing required fields in AI response'')
               else Inr parsed))"

definition generateSMSContent :: "json_parse \<Rightarrow> llm_outcome \<Rightarrow> error + json" where
  "generateSMSContent jp response =
     (case sms_try jp response of
        Inl cause \<Rightarrow> Inl (Error ''Failed to generate SMS content. Please try again.'')
      | Inr content \<Rightarrow> Inr content)"

text \<open>
  One generator call: the method and, for social content, the platform. \<open>generate\<close>
  dispatches as the callers do (the \<^verbatim>\<open>switch\<close> of the content route, the \<^verbatim>\<open>if\<close> chain of
  the campaign route).
\<close>

datatype gen_call = GenEmail | GenSocial platform | GenPPC | GenSMS

fun generate :: "json_parse \<Rightarrow> gen_call \<Rightarrow> llm_outcome \<Rightarrow> error + json" where
  "generate jp GenEmail r = generateEmailContent jp r"
| "generate jp (GenSocial pf) r = generateSocialContent jp pf r"
| "generate jp GenPPC r = generatePPCContent jp r"
| "generate jp GenSMS r = generateSMSContent jp r"

text \<open>
  The specification's table of required fields and its error message, for comparison
  with the generators: email needs \<^verbatim>\<open>subject\<close> and \<^verbatim>\<open>body\<close>, PPC \<^verbatim>\<open>headline\<close> and
  \<^verbatim>\<open>description\<close>, social and SMS \<^verbatim>\<open>body\<close>; the message is
  \<^verbatim>\<open>Failed to generate X content. Please try again.\<close>
\<close>

fun spec_required_fields :: "gen_call \<Rightarrow> string list" where
  "spec_required_fields GenEmail = [''subject'', ''body'']"
| "spec_required_fields (GenSocial pf) = [''body'']"
| "spec_required_fields GenPPC = [''headline'', ''description'']"
| "spec_required_fields GenSMS = [''body'']"

fun spec_channel_label :: "gen_call \<Rightarrow> string" where
  "spec_channel_label GenEmail = ''email''"
| "spec_channel_label (GenSocial pf) = ''social''"
| "spec_channel_label GenPPC = ''PPC''"
| "spec_channel_label GenSMS = ''SMS''"

definition spec_failure :: "gen_call \<Rightarrow> error" where
  "spec_failure g = Error (''Failed to generate '' @ spec_channel_label g @ '' content. Please try again.'')"

section \<open>Intent parser (\<^verbatim>\<open>src/lib/ai/prompt-parser.ts\<close>)\<close>

subsection \<open>The schema, lines 6-26\<close>

datatype channel = Email | Social | Ppc | Sms

fun channel_name :: "channel \<Rightarrow> string" where
  "channel_name Email = ''email''"
| "channel_name Social = ''social''"
| "channel_name Ppc = ''ppc''"
| "channel_name Sms = ''sms''"

record ContentSpec =
  tone :: "string option"
  keyMessage :: string
  callToAction :: "string option"

record AudienceCriteria =
  demographics :: "string option"
  interests :: "string option"
  location :: "string option"

record Schedule =
  startDate :: "string option"
  endDate :: "string option"

record CampaignIntent =
  goal :: string
  channels :: "channel list"
  contentSpec :: ContentSpec
  audienceCriteria :: AudienceCriteria
  budget :: "int option"
  schedule :: "Schedule option"
  needsClarification :: bool
  clarificationQuestions :: "string list option"

text \<open>
  The validators of the schema library, on a parsed JSON value: \<open>None\<close> is a validation
  error. \<^verbatim>\<open>z.string()\<close>, \<^verbatim>\<open>z.number()\<close> and \<^verbatim>\<open>z.boolean()\<close> accept the values of their type
  and nothing else, the empty string included; \<^verbatim>\<open>z.enum\<close> accepts the listed literals;
  \<^verbatim>\<open>z.array(p)\<close> accepts an array of any length whose elements \<open>p\<close> accepts.
\<close>

fun z_string :: "json \<Rightarrow> string option" where
  "z_string (JStr s) = Some s"
| "z_string v = None"

fun z_number :: "json \<Rightarrow> int option" where
  "z_number (JNum n) = Some n"
| "z_number v = None"

fun z_boolean :: "json \<Rightarrow> bool option" where
  "z_boolean (JBool b) = Some b"
| "z_boolean v = None"

fun z_enum_channel :: "json \<Rightarrow> channel option" where
  "z_enum_channel (JStr s) =
     (if s = ''email'' then Some Email
      else if s = ''social'' then Some Social
      else if s = ''ppc'' then Some Ppc
      else if s = ''sms'' then Some Sms
      else None)"
| "z_enum_channel v = None"

fun all_valid :: "'a option list \<Rightarrow> 'a list option" where
  "all_valid [] = Some []"
| "all_valid (None # xs) = None"
| "all_valid (Some a # xs) = (case all_valid xs of None \<Rightarrow> None | Some as \<Rightarrow> Some (a # as))"

fun z_array :: "(json \<Rightarrow> 'a option) \<Rightarrow> json \<Rightarrow> 'a list option" where
  "z_array p (JArr xs) = all_valid (map p xs)"
| "z_array p v = None"

text \<open>
  A key of a \<^verbatim>\<open>z.object\<close>: the argument is the value under the key, \<open>None\<close> when the key
  is absent. A required key must be there; an \<^verbatim>\<open>.optional()\<close> one may be absent (result
  \<open>Some None\<close>), but when it is there its value must validate (\<^verbatim>\<open>null\<close> does not).
  Keys the schema does not name are dropped.
\<close>

fun z_required :: "(json \<Rightarrow> 'a option) \<Rightarrow> json option \<Rightarrow> 'a option" where
  "z_required p None = None"
| "z_required p (Some v) = p v"

fun z_optional :: "(json \<Rightarrow> 'a option) \<Rightarrow> json option \<Rightarrow> 'a option option" where
  "z_optional p None = Some None"
| "z_optional p (Some v) = (case p v of None \<Rightarrow> None | Some a \<Rightarrow> Some (Some a))"

fun contentSpecSchema :: "json \<Rightarrow> ContentSpec option" where
  "contentSpecSchema (JObj fs) =
     do {
       t \<leftarrow> z_optional z_string (map_of fs ''tone'');
       k \<leftarrow> z_required z_string (map_of fs ''keyMessage'');
       c \<leftarrow> z_optional z_string (map_of fs ''callToAction'');
       Some \<lparr>tone = t, keyMessage = k, callToAction = c\<rparr>
     }"
| "contentSpecSchema v = None"

fun audienceCriteriaSchema :: "json \<Rightarrow> AudienceCriteria option" where
  "audienceCriteriaSchema (JObj fs) =
     do {
       d \<leftarrow> z_optional z_string (map_of fs ''demographics'');
       i \<leftarrow> z_optional z_string (map_of fs ''interests'');
       l \<leftarrow> z_optional z_string (map_of fs ''location'');
       Some \<lparr>demographics = d, interests = i, location = l\<rparr>
     }"
| "audienceCriteriaSchema v = None"

fun scheduleSchema :: "json \<Rightarrow> Schedule option" where
  "scheduleSchema (JObj fs) =
     do {
       s \<leftarrow> z_optional z_string (map_of fs ''startDate'');
       e \<leftarrow> z_optional z_string (map_of fs ''endDate'');
       Some \<lparr>startDate = s, endDate = e\<rparr>
     }"
| "scheduleSchema v = None"

fun campaignSchema :: "json \<Rightarrow> CampaignIntent option" where
  "campaignSchema (JObj fs) =
     do {
       g \<leftarrow> z_required z_string (map_of fs ''goal'');
       chs \<leftarrow> z_required (z_array z_enum_channel) (map_of fs ''channels'');
       cs \<leftarrow> z_required contentSpecSchema (map_of fs ''contentSpec'');
       au \<leftarrow> z_required audienceCriteriaSchema (map_of fs ''audienceCriteria'');
       b \<leftarrow> z_optional z_number (map_of fs ''budget'');
       sch \<leftarrow> z_optional scheduleSchema (map_of fs ''schedule'');
       nc \<leftarrow> z_required z_boolean (map_of fs ''needsClarification'');
       qs \<leftarrow> z_optional (z_array z_string) (map_of fs ''clarificationQuestions'');
       Some \<lparr>goal = g, channels = chs, contentSpec = cs, audienceCriteria = au, budget = b,
             schedule = sch, needsClarification = nc, clarificationQuestions = qs\<rparr>
     }"
| "campaignSchema v = None"

subsection \<open>\<^verbatim>\<open>parseCampaignIntent\<close>, lines 85-88\<close>

text \<open>
  The model is invoked once and its reply goes through the structured output parser:
  the library's step from text to a JSON value is the parameter \<open>decode\<close>, the schema
  check is \<open>campaignSchema\<close>. The library reports a reply it cannot decode or validate
  as one exception, whose message (it quotes the reply) is shortened here.
\<close>

definition parseCampaignIntent :: "(string \<Rightarrow> json option) \<Rightarrow> llm_outcome \<Rightarrow> error + CampaignIntent" where
  "parseCampaignIntent decode response =
     (case response of
        LLMThrows m \<Rightarrow> Inl (Error m)
      | LLMReply text \<Rightarrow>
          (case decode text of
             None \<Rightarrow> Inl (Error ''Failed to parse'')
           | Some v \<Rightarrow>
               (case campaignSchema v of
                  None \<Rightarrow> Inl (Error ''Failed to parse'')
                | Some parsed \<Rightarrow> Inr parsed)))"

subsection \<open>\<^verbatim>\<open>generateResponse\<close>, lines 91-103\<close>

text \<open>
  Strings are lists of bytes; the apostrophe and the line feed are written by their
  codes. The condition \<^verbatim>\<open>intent.needsClarification && intent.clarificationQuestions\<close>
  holds for any array, the empty one too, and fails when the key is absent.
\<close>

definition numbered :: "string list \<Rightarrow> string list" where
  "numbered qs = map (\<lambda>(i, q). nat_to_string (i + 1) @ ''. '' @ q) (enumerate 0 qs)"

definition clarification_message :: "string list \<Rightarrow> string" where
  "clarification_message qs =
     ''I'' @ [CHR 0x27] @ ''d love to help you create this campaign! To get started, I need a bit more information:''
     @ [CHR 0x0A, CHR 0x0A] @ join [CHR 0x0A] (numbered qs) @ [CHR 0x0A, CHR 0x0A]
     @ ''Please provide these details so I can create the perfect campaign for you.''"

definition budgetText :: "int option \<Rightarrow> string" where
  "budgetText b =
     (case b of
        None \<Rightarrow> []
      | Some n \<Rightarrow> if n = 0 then [] else '' with a budget of $'' @ int_to_string n)"

definition or_default :: "string option \<Rightarrow> string \<Rightarrow> string" where
  "or_default v d = (case v of None \<Rightarrow> d | Some s \<Rightarrow> if s = [] then d else s)"

definition confirmation_message :: "CampaignIntent \<Rightarrow> string" where
  "confirmation_message intent =
     ''Perfect! I'' @ [CHR 0x27] @ ''m creating a '' @ join '', '' (map channel_name (channels intent))
     @ '' campaign'' @ budgetText (budget intent) @ '' to '' @ goal intent @ ''.''
     @ [CHR 0x0A, CHR 0x0A] @ ''Key Message: '' @ keyMessage (contentSpec intent)
     @ [CHR 0x0A, CHR 0x0A] @ ''Target Audience: ''
     @ or_default (demographics (audienceCriteria intent)) ''General audience''
     @ [CHR 0x0A, CHR 0x0A] @ ''I'' @ [CHR 0x27]
     @ ''ll now generate the campaign content and set everything up. Would you like to review the content before we launch?''"

definition generateResponse :: "CampaignIntent \<Rightarrow> string \<Rightarrow> string" where
  "generateResponse intent userPrompt =
     (case (needsClarification intent, clarificationQuestions intent) of
        (True, Some qs) \<Rightarrow> clarification_message qs
      | other \<Rightarrow> confirmation_message intent)"

section \<open>Campaign route (\<^verbatim>\<open>src/app/api/campaign/route.ts\<close>)\<close>

subsection \<open>Stored records\<close>

text \<open>
  The tables the handlers read and write, as lists of rows; a row's identifier is its
  position, so a created row has a fresh identifier. Time stamps are left out. The JSON
  columns hold JSON values; the content column is the object of generated content, a list
  of keys and values in insertion order.

  A message is the object literal the route builds. The \<^verbatim>\<open>messages\<close> column of a
  conversation is one JSON value (\<^verbatim>\<open>Json @default("[]")\<close> in the schema, \<^verbatim>\<open>JSONB\<close> in the
  table), not a list column; \<open>message_json\<close> is a message as it is stored in it, the
  campaign identifier being the row's position.
\<close>

record message =
  msg_role :: string
  msg_content :: string
  msg_campaignId :: "nat option"

definition message_json :: "message \<Rightarrow> json" where
  "message_json m =
     JObj ([(''role'', JStr (msg_role m)), (''content'', JStr (msg_content m))]
           @ (case msg_campaignId m of None \<Rightarrow> [] | Some k \<Rightarrow> [(''campaignId'', JNum (int k))]))"

record conversation =
  conv_userId :: string
  conv_messages :: json
  conv_currentCampaignId :: "nat option"

datatype launch_result =
    LaunchSuccess channel "json option"
  | LaunchQueued channel
  | LaunchFailed channel string

record campaign =
  camp_userId :: string
  camp_goal :: string
  camp_channels :: "channel list"
  camp_content :: "(string \<times> json) list"
  camp_audience :: json
  camp_budget :: "int option"
  camp_schedule :: json
  camp_status :: string
  camp_launchResults :: "launch_result list option"

record integration =
  int_userId :: string
  int_type :: string
  int_name :: string
  int_status :: string
  int_credentials :: json

text \<open>
  The state a request runs in: the tables, the record of the generator calls made so
  far, each with the reply the model gave to it, and the record of the messages handed
  to the conversation table so far, each with its conversation, in the order of the
  calls that returned.
\<close>

record world =
  conversations :: "conversation list"
  campaigns :: "campaign list"
  integrations :: "integration list"
  gen_calls :: "(gen_call \<times> llm_outcome) list"
  conv_writes :: "(nat \<times> message) list"

text \<open>
  What the outside supplies to a request: the reply of the parser's model, the library's
  decoding of it, the reply of the generator's model to its \<open>n\<close>-th call, \<^verbatim>\<open>JSON.parse\<close>,
  and the outcome of the HTTP request to the mail service in the \<open>n\<close>-th round of the
  launch loop (\<open>Inl\<close> the message of whatever lines 421-448 throw, \<open>Inr\<close> the \<^verbatim>\<open>id\<close>
  of the created mailing).
\<close>

record env =
  env_parse_reply :: llm_outcome
  env_decode :: "string \<Rightarrow> json option"
  env_gen_reply :: "nat \<Rightarrow> llm_outcome"
  env_JSON_parse :: json_parse
  env_fetch :: "nat \<Rightarrow> string + json option"

text \<open>
  A decoded request of the campaign route: the session's user, the raw prompt and the
  conversation identifier (\<open>None\<close> when absent or empty). The steps before line 73
  (session, rate limit, body schema, sanitisation, API key) either reject the request
  before any table is touched or hand these values on; the history only feeds the
  parser's prompt, and the brand kit read at line 125 only the generators' prompts.
\<close>

record request =
  req_user :: string
  req_prompt :: string
  req_conversationId :: "nat option"

datatype response =
    ClarificationResponse string CampaignIntent nat
  | CampaignResponse CampaignIntent "(string \<times> json) list" nat nat string "string list"
  | CampaignRecord campaign
  | ErrorResponse string nat "string list"

text \<open>
  The fields of the responses: a clarification carries the message, the intent and the
  conversation identifier; a campaign response the intent, the content, the campaign
  and conversation identifiers, the message and the warnings (the key \<^verbatim>\<open>warnings\<close> is
  present when the list is not empty); an error response the message, the HTTP status and
  the details.
\<close>

fun handleApiError :: "error \<Rightarrow> response" where
  "handleApiError (ApiError m st details) = ErrorResponse m st details"
| "handleApiError (Error m) =
     ErrorResponse (if m = [] then ''An unexpected error occurred'' else m) 500 []"

subsection \<open>Conversation updates, lines 81-101\<close>

text \<open>
  \<^verbatim>\<open>prisma.conversation.update\<close> with \<^verbatim>\<open>where: { id, userId }\<close> throws when no row matches
  (the message of the exception is shortened); \<^verbatim>\<open>create\<close> appends a row whose messages
  are the array of the one message.

  The updates pass \<^verbatim>\<open>messages: { push: [m] }\<close>. For a list column that would append; the
  column here is a single JSON value, for which \<^verbatim>\<open>push\<close> is no operation: the object with
  the one key \<^verbatim>\<open>push\<close> is the new value of the column and takes the place of the
  messages stored before.
\<close>

definition update_messages_push :: "nat \<Rightarrow> message \<Rightarrow> conversation list \<Rightarrow> conversation list" where
  "update_messages_push cid m cs =
     cs[cid := (cs ! cid)\<lparr>conv_messages := JObj [(''push'', JArr [message_json m])]\<rparr>]"

definition user_message :: "string \<Rightarrow> message" where
  "user_message prompt = \<lparr>msg_role = ''user'', msg_content = prompt, msg_campaignId = None\<rparr>"

definition append_user_message :: "request \<Rightarrow> world \<Rightarrow> error + nat \<times> world" where
  "append_user_message rq w =
     (case req_conversationId rq of
        Some cid \<Rightarrow>
          if cid < length (conversations w) \<and> conv_userId (conversations w ! cid) = req_user rq
          then Inr (cid,
                    w\<lparr>conversations :=
                        update_messages_push cid (user_message (req_prompt rq)) (conversations w),
                      conv_writes := conv_writes w @ [(cid, user_message (req_prompt rq))]\<rparr>)
          else Inl (Error ''Record to update not found.'')
      | None \<Rightarrow>
          Inr (length (conversations w),
               w\<lparr>conversations := conversations w @
                    [\<lparr>conv_userId = req_user rq,
                      conv_messages = JArr [message_json (user_message (req_prompt rq))],
                      conv_currentCampaignId = None\<rparr>],
                 conv_writes := conv_writes w @
                    [(length (conversations w), user_message (req_prompt rq))]\<rparr>))"

subsection \<open>The fan-out over the channels, lines 129-166\<close>

record fan =
  generatedContent :: "(string \<times> json) list"
  contentErrors :: "string list"
  calls :: "(gen_call \<times> llm_outcome) list"

text \<open>
  One awaited generator call: the model's reply to this call, the call recorded, and the
  generator's result.
\<close>

definition await_generate :: "env \<Rightarrow> gen_call \<Rightarrow> fan \<Rightarrow> (error + json) \<times> fan" where
  "await_generate e g s =
     (let r = env_gen_reply e (length (calls s))
      in (generate (env_JSON_parse e) g r, s\<lparr>calls := calls s @ [(g, r)]\<rparr>))"

definition assign :: "string \<Rightarrow> json \<Rightarrow> fan \<Rightarrow> fan" where
  "assign k v s = s\<lparr>generatedContent := AList.update k v (generatedContent s)\<rparr>"

text \<open>
  The \<^verbatim>\<open>try\<close> block of one round of the loop: the thrown error, if any, and the state it
  leaves. An assignment \<^verbatim>\<open>generatedContent.k = await ...\<close> does not happen when the call
  throws. For \<^verbatim>\<open>social\<close> the two calls are in the same block, one after the other.
\<close>

fun try_channel :: "env \<Rightarrow> channel \<Rightarrow> fan \<Rightarrow> error option \<times> fan" where
  "try_channel e Email s =
     (case await_generate e GenEmail s of
        (Inl x, s1) \<Rightarrow> (Some x, s1)
      | (Inr c, s1) \<Rightarrow> (None, assign ''email'' c s1))"
| "try_channel e Social s =
     (case await_generate e (GenSocial Facebook) s of
        (Inl x, s1) \<Rightarrow> (Some x, s1)
      | (Inr c, s1) \<Rightarrow>
          (case await_generate e (GenSocial Instagram) (assign ''facebook'' c s1) of
             (Inl x, s2) \<Rightarrow> (Some x, s2)
           | (Inr c2, s2) \<Rightarrow> (None, assign ''instagram'' c2 s2)))"
| "try_channel e Ppc s =
     (case await_generate e GenPPC s of
        (Inl x, s1) \<Rightarrow> (Some x, s1)
      | (Inr c, s1) \<Rightarrow> (None, assign ''ppc'' c s1))"
| "try_channel e Sms s =
     (case await_generate e GenSMS s of
        (Inl x, s1) \<Rightarrow> (Some x, s1)
      | (Inr c, s1) \<Rightarrow> (None, assign ''sms'' c s1))"

definition channel_warning :: "channel \<Rightarrow> string" where
  "channel_warning ch = ''Failed to generate '' @ channel_name ch @ '' content''"

fun fanout :: "env \<Rightarrow> channel list \<Rightarrow> fan \<Rightarrow> fan" where
  "fanout e [] s = s"
| "fanout e (ch # chs) s =
     (case try_channel e ch s of
        (None, s1) \<Rightarrow> fanout e chs s1
      | (Some x, s1) \<Rightarrow>
          fanout e chs (s1\<lparr>contentErrors := contentErrors s1 @ [channel_warning ch]\<rparr>))"

subsection \<open>\<^verbatim>\<open>POST\<close>, lines 73-217\<close>

text \<open>
  The message of a finished campaign starts with the sparkles sign, three bytes in
  UTF-8.
\<close>

definition ready_message :: "CampaignIntent \<Rightarrow> string" where
  "ready_message intent =
     [CHR 0xE2, CHR 0x9C, CHR 0xA8] @ '' Your campaign is ready! I'' @ [CHR 0x27]
     @ ''ve generated content for '' @ join '', '' (map channel_name (channels intent))
     @ ''. Review the preview and let me know if you'' @ [CHR 0x27] @ ''d like any changes.''"

text \<open>
  The audience and the schedule are stored as JSON objects; a key whose value is
  \<^verbatim>\<open>undefined\<close> is not stored. \<^verbatim>\<open>intent.schedule || {}\<close> stores the empty object for
  an absent schedule.
\<close>

definition stored_key :: "string \<Rightarrow> string option \<Rightarrow> (string \<times> json) list" where
  "stored_key k v = (case v of None \<Rightarrow> [] | Some s \<Rightarrow> [(k, JStr s)])"

definition audience_json :: "AudienceCriteria \<Rightarrow> json" where
  "audience_json a =
     JObj (stored_key ''demographics'' (demographics a) @ stored_key ''interests'' (interests a)
           @ stored_key ''location'' (location a))"

definition schedule_json :: "Schedule option \<Rightarrow> json" where
  "schedule_json s =
     (case s of
        None \<Rightarrow> JObj []
      | Some x \<Rightarrow> JObj (stored_key ''startDate'' (startDate x) @ stored_key ''endDate'' (endDate x)))"

definition new_campaign :: "string \<Rightarrow> CampaignIntent \<Rightarrow> (string \<times> json) list \<Rightarrow> campaign" where
  "new_campaign user intent content =
     \<lparr>camp_userId = user, camp_goal = goal intent, camp_channels = channels intent,
      camp_content = content, camp_audience = audience_json (audienceCriteria intent),
      camp_budget = budget intent, camp_schedule = schedule_json (schedule intent),
      camp_status = ''ready'', camp_launchResults = None\<rparr>"

definition assistant_message :: "string \<Rightarrow> nat option \<Rightarrow> message" where
  "assistant_message text cid = \<lparr>msg_role = ''assistant'', msg_content = text, msg_campaignId = cid\<rparr>"

definition set_current_campaign :: "nat \<Rightarrow> nat \<Rightarrow> conversation list \<Rightarrow> conversation list" where
  "set_current_campaign cid k cs = cs[cid := (cs ! cid)\<lparr>conv_currentCampaignId := Some k\<rparr>]"

definition fan_start :: "world \<Rightarrow> fan" where
  "fan_start w = \<lparr>generatedContent = [], contentErrors = [], calls = gen_calls w\<rparr>"

definition POST :: "env \<Rightarrow> request \<Rightarrow> world \<Rightarrow> response \<times> world" where
  "POST e rq w =
     (case parseCampaignIntent (env_decode e) (env_parse_reply e) of
        Inl err \<Rightarrow> (handleApiError err, w)
      | Inr intent \<Rightarrow>
          (case append_user_message rq w of
             Inl err \<Rightarrow> (handleApiError err, w)
           | Inr (cid, w1) \<Rightarrow>
               if needsClarification intent
               then
                 (let response = generateResponse intent (req_prompt rq)
                  in (ClarificationResponse response intent cid,
                      w1\<lparr>conversations :=
                            update_messages_push cid (assistant_message response None) (conversations w1),
                         conv_writes := conv_writes w1 @ [(cid, assistant_message response None)]\<rparr>))
               else
                 (let s = fanout e (channels intent) (fan_start w1);
                      w2 = w1\<lparr>gen_calls := calls s\<rparr>
                  in if generatedContent s = []
                     then (handleApiError
                             (ApiError ''Failed to generate content for any channel'' 500 (contentErrors s)),
                           w2)
                     else
                       (let k = length (campaigns w2);
                            w3 = w2\<lparr>campaigns := campaigns w2 @
                                      [new_campaign (req_user rq) intent (generatedContent s)]\<rparr>;
                            responseMessage = ready_message intent;
                            w4 = w3\<lparr>conversations :=
                                      set_current_campaign cid k
                                        (update_messages_push cid
                                           (assistant_message responseMessage (Some k))
                                           (conversations w3)),
                                    conv_writes := conv_writes w3 @
                                      [(cid, assistant_message responseMessage (Some k))]\<rparr>
                        in (CampaignResponse intent (generatedContent s) k cid responseMessage
                              (contentErrors s),
                            w4)))))"

subsection \<open>\<^verbatim>\<open>PATCH\<close>, lines 276-298\<close>

text \<open>
  The decoded updates; \<open>None\<close> is an absent key, which leaves the column as it is.
  \<open>updateCampaignSchema_ok\<close> holds the two checks of \<^verbatim>\<open>updateCampaignSchema\<close> that the
  types do not express: a positive budget, and a status among the five listed.
\<close>

record campaign_updates =
  upd_goal :: "string option"
  upd_channels :: "channel list option"
  upd_budget :: "int option"
  upd_status :: "string option"
  upd_content :: "(string \<times> json) list option"
  upd_audience :: "json option"
  upd_schedule :: "json option"

definition updateCampaignSchema_ok :: "campaign_updates \<Rightarrow> bool" where
  "updateCampaignSchema_ok u \<longleftrightarrow>
     (case upd_budget u of None \<Rightarrow> True | Some b \<Rightarrow> 0 < b) \<and>
     (case upd_status u of
        None \<Rightarrow> True
      | Some st \<Rightarrow> st \<in> set [''draft'', ''ready'', ''launched'', ''completed'', ''paused''])"

definition or_keep :: "'a option \<Rightarrow> 'a \<Rightarrow> 'a" where
  "or_keep v old = (case v of None \<Rightarrow> old | Some x \<Rightarrow> x)"

definition apply_updates :: "campaign_updates \<Rightarrow> campaign \<Rightarrow> campaign" where
  "apply_updates u c =
     c\<lparr>camp_goal := or_keep (upd_goal u) (camp_goal c),
       camp_channels := or_keep (upd_channels u) (camp_channels c),
       camp_budget := (case upd_budget u of None \<Rightarrow> camp_budget c | Some b \<Rightarrow> Some b),
       camp_status := or_keep (upd_status u) (camp_status c),
       camp_content := or_keep (upd_content u) (camp_content c),
       camp_audience := or_keep (upd_audience u) (camp_audience c),
       camp_schedule := or_keep (upd_schedule u) (camp_schedule c)\<rparr>"

definition PATCH :: "string \<Rightarrow> nat \<Rightarrow> campaign_updates \<Rightarrow> world \<Rightarrow> response \<times> world" where
  "PATCH user campaignId updates w =
     (if \<not> updateCampaignSchema_ok updates then (ErrorResponse ''Validation failed'' 400 [], w)
      else if campaignId < length (campaigns w) \<and> camp_userId (campaigns w ! campaignId) = user
      then
        (let c = apply_updates updates (campaigns w ! campaignId)
         in (CampaignRecord c, w\<lparr>campaigns := (campaigns w)[campaignId := c]\<rparr>))
      else (handleApiError (Error ''Record to update not found.''), w))"

subsection \<open>The launch handler, lines 337-536\<close>

text \<open>
  The checks of the mail service's credentials, lines 396-419. The credentials are a
  JSON value; \<^verbatim>\<open>credentials.apiKey.split("-")\<close> throws for a key that is not a string.
\<close>

definition check_credentials :: "json \<Rightarrow> error + unit" where
  "check_credentials credentials =
     (case get_prop credentials ''apiKey'' of
        Inl x \<Rightarrow> Inl x
      | Inr apiKey \<Rightarrow>
          if falsy apiKey then Inl (Error ''Mailchimp API key not configured'')
          else (case get_prop credentials ''listId'' of
             Inl x \<Rightarrow> Inl x
           | Inr listId \<Rightarrow>
               if falsy listId \<or> listId = Some (JStr ''placeholder'')
               then Inl (Error ''Mailchimp list ID not configured. Please update your integration settings.'')
               else (case get_prop credentials ''fromName'' of
                  Inl x \<Rightarrow> Inl x
                | Inr fromName \<Rightarrow>
                    if falsy fromName then Inl (Error ''Sender name not configured'')
                    else (case get_prop credentials ''replyTo'' of
                       Inl x \<Rightarrow> Inl x
                     | Inr replyTo \<Rightarrow>
                         if falsy replyTo \<or> replyTo = Some (JStr ''noreply@example.com'')
                         then Inl (Error ''Reply-to email not configured'')
                         else (case apiKey of
                                 Some (JStr k) \<Rightarrow> Inr ()
                               | other \<Rightarrow> Inl (Error ''credentials.apiKey.split is not a function''))))))"

text \<open>
  The \<^verbatim>\<open>try\<close> block of one round of the launch loop, lines 388-462; \<open>i\<close> is the round.
  The content is read under the channel's own name.
\<close>

definition launch_try :: "env \<Rightarrow> integration \<Rightarrow> campaign \<Rightarrow> nat \<Rightarrow> channel \<Rightarrow> error + launch_result" where
  "launch_try e integ c i ch =
     (if falsy (map_of (camp_content c) (channel_name ch))
      then Inl (Error (''No content generated for '' @ channel_name ch))
      else if ch = Email \<and> int_name integ = ''Mailchimp''
      then (case check_credentials (int_credentials integ) of
              Inl x \<Rightarrow> Inl x
            | Inr u \<Rightarrow>
                (case env_fetch e i of
                   Inl m \<Rightarrow> Inl (Error m)
                 | Inr externalId \<Rightarrow> Inr (LaunchSuccess ch externalId)))
      else Inr (LaunchQueued ch))"

fun error_message :: "error \<Rightarrow> string" where
  "error_message (Error m) = m"
| "error_message (ApiError m st details) = m"

text \<open>One round, lines 371-475: the integration of the channel's type, then the block.\<close>

definition launch_channel :: "env \<Rightarrow> integration list \<Rightarrow> campaign \<Rightarrow> nat \<Rightarrow> channel \<Rightarrow> launch_result" where
  "launch_channel e integs c i ch =
     (case find (\<lambda>x. int_type x = channel_name ch) integs of
        None \<Rightarrow> LaunchFailed ch ''No integration connected''
      | Some integ \<Rightarrow>
          (case launch_try e integ c i ch of
             Inl x \<Rightarrow> LaunchFailed ch (error_message x)
           | Inr r \<Rightarrow> r))"

fun launch_loop :: "env \<Rightarrow> integration list \<Rightarrow> campaign \<Rightarrow> nat \<Rightarrow> channel list \<Rightarrow> launch_result list" where
  "launch_loop e integs c i [] = []"
| "launch_loop e integs c i (ch # chs) =
     launch_channel e integs c i ch # launch_loop e integs c (Suc i) chs"

text \<open>
  \<^verbatim>\<open>successCount\<close> is incremented exactly where a \<^verbatim>\<open>success\<close> or \<^verbatim>\<open>queued\<close> result is
  pushed, so it is the number of such results.
\<close>

fun launched_ok :: "launch_result \<Rightarrow> bool" where
  "launched_ok (LaunchSuccess ch x) = True"
| "launched_ok (LaunchQueued ch) = True"
| "launched_ok (LaunchFailed ch m) = False"

definition successCount :: "launch_result list \<Rightarrow> nat" where
  "successCount rs = length (filter launched_ok rs)"

record launch_request =
  lreq_user :: string
  lreq_campaignId :: nat
  lreq_channels :: "channel list option"

record launch_response =
  lres_campaign :: campaign
  lres_launchResults :: "launch_result list"
  lres_successCount :: nat
  lres_totalChannels :: nat

text \<open>
  The user's connected integrations, lines 359-364, and the channels of the launch, line
  366: those of the request when it names any, else the campaign's.
\<close>

definition connected_integrations :: "world \<Rightarrow> string \<Rightarrow> integration list" where
  "connected_integrations w user =
     filter (\<lambda>x. int_userId x = user \<and> int_status x = ''connected'') (integrations w)"

definition channelsToLaunch :: "launch_request \<Rightarrow> campaign \<Rightarrow> channel list" where
  "channelsToLaunch rq c = (case lreq_channels rq of Some chs \<Rightarrow> chs | None \<Rightarrow> camp_channels c)"

text \<open>
  The \<^verbatim>\<open>try\<close> block of the handler, lines 338-519. The details of its errors are not
  kept, the \<^verbatim>\<open>catch\<close> block below drops them.
\<close>

definition launch_block :: "env \<Rightarrow> launch_request \<Rightarrow> world \<Rightarrow> (error + launch_response) \<times> world" where
  "launch_block e rq w =
     (let campaignId = lreq_campaignId rq in
      if \<not> (campaignId < length (campaigns w) \<and> camp_userId (campaigns w ! campaignId) = lreq_user rq)
      then (Inl (ApiError ''Campaign not found'' 404 []), w)
      else
        (let c = campaigns w ! campaignId in
         if camp_status c = ''launched''
         then (Inl (ApiError ''Campaign already launched'' 400 []), w)
         else
           (let integs = connected_integrations w (lreq_user rq);
                chs = channelsToLaunch rq c;
                launchResults = launch_loop e integs c 0 chs
            in if successCount launchResults = 0
               then (Inl (ApiError ''Failed to launch campaign on any channel'' 500 []), w)
               else
                 (let updatedCampaign =
                        c\<lparr>camp_status := (if successCount launchResults = length chs
                                           then ''launched'' else ''partially_launched''),
                          camp_launchResults := Some launchResults\<rparr>
                  in (Inr \<lparr>lres_campaign = updatedCampaign, lres_launchResults = launchResults,
                            lres_successCount = successCount launchResults,
                            lres_totalChannels = length chs\<rparr>,
                      w\<lparr>campaigns := (campaigns w)[campaignId := updatedCampaign]\<rparr>)))))"

text \<open>
  The \<^verbatim>\<open>catch\<close> block, lines 520-535. With a signed-in user its condition goes on to
  read \<^verbatim>\<open>body\<close>, a constant declared inside the \<^verbatim>\<open>try\<close> block and not in scope here, so
  the read throws a \<^verbatim>\<open>ReferenceError\<close> and the handler ends with that error instead of an
  error response. Nothing is written on this path.
\<close>

definition launch_POST :: "env \<Rightarrow> launch_request \<Rightarrow> world \<Rightarrow> (error + launch_response) \<times> world" where
  "launch_POST e rq w =
     (case launch_block e rq w of
        (Inl x, w1) \<Rightarrow> (Inl (Error ''body is not defined''), w1)
      | (Inr r, w1) \<Rightarrow> (Inr r, w1))"

section \<open>Notions used to state the properties\<close>

text \<open>
  The key under which the campaign route stores the content of a generator call, and the
  keys a channel's round of the loop assigns when it runs to its end.
\<close>

fun gen_key :: "gen_call \<Rightarrow> string" where
  "gen_key GenEmail = ''email''"
| "gen_key (GenSocial Facebook) = ''facebook''"
| "gen_key (GenSocial Instagram) = ''instagram''"
| "gen_key (GenSocial Twitter) = ''twitter''"
| "gen_key (GenSocial Linkedin) = ''linkedin''"
| "gen_key GenPPC = ''ppc''"
| "gen_key GenSMS = ''sms''"

fun content_keys :: "channel \<Rightarrow> string list" where
  "content_keys Email = [''email'']"
| "content_keys Social = [''facebook'', ''instagram'']"
| "content_keys Ppc = [''ppc'']"
| "content_keys Sms = [''sms'']"

text \<open>
  The error with which round \<open>i\<close> of the loop over \<open>chs\<close>, started in state \<open>s\<close>, enters
  its \<^verbatim>\<open>catch\<close> block; \<open>None\<close> when the round's \<^verbatim>\<open>try\<close> block runs to its end.
\<close>

definition round_error :: "env \<Rightarrow> channel list \<Rightarrow> fan \<Rightarrow> nat \<Rightarrow> error option" where
  "round_error e chs s i = fst (try_channel e (chs ! i) (fanout e (take i chs) s))"

text \<open>The generator calls a request added to the record of calls.\<close>

definition new_calls :: "world \<Rightarrow> world \<Rightarrow> (gen_call \<times> llm_outcome) list" where
  "new_calls w w' = drop (length (gen_calls w)) (gen_calls w')"

text \<open>
  Every stored content is the result of a generator call recorded after the first \<open>n\<close>
  calls, made for the key it is stored under.
\<close>

definition generated :: "env \<Rightarrow> nat \<Rightarrow> fan \<Rightarrow> bool" where
  "generated e n s \<longleftrightarrow>
     n \<le> length (calls s) \<and>
     (\<forall>(k, v) \<in> set (generatedContent s).
        \<exists>(g, r) \<in> set (drop n (calls s)). gen_key g = k \<and> generate (env_JSON_parse e) g r = Inr v)"

text \<open>
  The assistant message that goes with a response: one for a clarification and for a
  finished campaign, none for an error.
\<close>

fun assistant_reply :: "response \<Rightarrow> message list" where
  "assistant_reply (ClarificationResponse m intent cid) = [assistant_message m None]"
| "assistant_reply (CampaignResponse intent content k cid m warnings) = [assistant_message m (Some k)]"
| "assistant_reply (CampaignRecord c) = []"
| "assistant_reply (ErrorResponse m st details) = []"

section \<open>Example inputs\<close>

text \<open>
  Inputs at which the properties below are instantiated: a reply that holds every field
  a generator may require, a parser that knows this one text, an intent without
  clarification for given channels together with the JSON it is decoded from, an
  environment around them, a first request and the empty tables.
\<close>

definition good_reply :: string where
  \<open>good_reply = ''{"subject":"S","body":"B","headline":"H","description":"D"}''\<close>

definition good_object :: json where
  "good_object =
     JObj [(''subject'', JStr ''S''), (''body'', JStr ''B''), (''headline'', JStr ''H''),
           (''description'', JStr ''D'')]"

definition example_parse :: json_parse where
  "example_parse s = (if s = good_reply then Some good_object else None)"

definition example_intent :: "channel list \<Rightarrow> CampaignIntent" where
  "example_intent chs =
     \<lparr>goal = ''increase signups'', channels = chs,
      contentSpec = \<lparr>tone = None, keyMessage = ''New feature'', callToAction = None\<rparr>,
      audienceCriteria = \<lparr>demographics = None, interests = None, location = None\<rparr>,
      budget = None, schedule = None, needsClarification = False,
      clarificationQuestions = None\<rparr>"

definition example_intent_json :: "channel list \<Rightarrow> json" where
  "example_intent_json chs =
     JObj [(''goal'', JStr ''increase signups''),
           (''channels'', JArr (map (\<lambda>c. JStr (channel_name c)) chs)),
           (''contentSpec'', JObj [(''keyMessage'', JStr ''New feature'')]),
           (''audienceCriteria'', JObj []),
           (''needsClarification'', JBool False)]"

definition example_env :: "channel list \<Rightarrow> (nat \<Rightarrow> llm_outcome) \<Rightarrow> env" where
  "example_env chs replies =
     \<lparr>env_parse_reply = LLMReply ''the intent'',
      env_decode = (\<lambda>s. Some (example_intent_json chs)),
      env_gen_reply = replies,
      env_JSON_parse = example_parse,
      env_fetch = (\<lambda>n. Inl ''Mailchimp API error'')\<rparr>"

definition example_request :: request where
  "example_request =
     \<lparr>req_user = ''u1'', req_prompt = ''Promote the new feature'', req_conversationId = None\<rparr>"

definition empty_world :: world where
  "empty_world =
     \<lparr>conversations = [], campaigns = [], integrations = [], gen_calls = [], conv_writes = []\<rparr>"

text \<open>The tables once the first request has stored its conversation.\<close>

definition example_started :: world where
  "example_started =
     \<lparr>conversations =
        [\<lparr>conv_userId = ''u1'',
          conv_messages = JArr [message_json (user_message ''Promote the new feature'')],
          conv_currentCampaignId = None\<rparr>],
      campaigns = [], integrations = [], gen_calls = [],
      conv_writes = [(0, user_message ''Promote the new feature'')]\<rparr>"

text \<open>
  A world with one campaign of user \<open>u1\<close> for email and social, holding email content,
  in a given status, and one connected email integration that is not the mail service.
\<close>

definition example_campaign :: "string \<Rightarrow> campaign" where
  "example_campaign st =
     \<lparr>camp_userId = ''u1'', camp_goal = ''increase signups'', camp_channels = [Email, Social],
      camp_content = [(''email'', good_object)], camp_audience = JObj [], camp_budget = None,
      camp_schedule = JObj [], camp_status = st, camp_launchResults = None\<rparr>"

definition launch_world :: "string \<Rightarrow> world" where
  "launch_world st =
     \<lparr>conversations = [], campaigns = [example_campaign st],
      integrations = [\<lparr>int_userId = ''u1'', int_type = ''email'', int_name = ''SendGrid'',
                       int_status = ''connected'', int_credentials = JObj []\<rparr>],
      gen_calls = [], conv_writes = []\<rparr>"

definition launch_of :: "channel list option \<Rightarrow> launch_request" where
  "launch_of chs = \<lparr>lreq_user = ''u1'', lreq_campaignId = 0, lreq_channels = chs\<rparr>"

definition status_update :: "string \<Rightarrow> campaign_updates" where
  "status_update st =
     \<lparr>upd_goal = None, upd_channels = None, upd_budget = None, upd_status = Some st,
      upd_content = None, upd_audience = None, upd_schedule = None\<rparr>"

section \<open>Extraction of the JSON span\<close>

lemma json_match_embedded:
  assumes "CHR ''{'' \<notin> set pre" and "CHR ''}'' \<notin> set post"
  shows "json_match (pre @ CHR ''{'' # mid @ CHR ''}'' # post) = Some (CHR ''{'' # mid @ [CHR ''}''])"
proof -
  have a: "dropWhile (\<lambda>c. c \<noteq> CHR ''{'') (pre @ CHR ''{'' # mid @ CHR ''}'' # post)
           = CHR ''{'' # mid @ CHR ''}'' # post"
    using assms(1) by (auto simp add: dropWhile_append3)
  have b: "dropWhile (\<lambda>c. c \<noteq> CHR ''}'') (rev post @ CHR ''}'' # rev mid) = CHR ''}'' # rev mid"
    using assms(2) by (auto simp add: dropWhile_append3)
  show ?thesis
    unfolding json_match_def a by (simp add: b)
qed

lemma first_brace_split:
  assumes "dropWhile (\<lambda>c. c \<noteq> CHR ''{'') content = b # rest"
  shows "b = CHR ''{'' \<and> content = takeWhile (\<lambda>c. c \<noteq> CHR ''{'') content @ CHR ''{'' # rest"
proof -
  have "\<not> (b \<noteq> CHR ''{'')"
    using assms hd_dropWhile [of "\<lambda>c. c \<noteq> CHR ''{''" content] by fastforce
  moreover have "content = takeWhile (\<lambda>c. c \<noteq> CHR ''{'') content @ b # rest"
    using assms takeWhile_dropWhile_id [of "\<lambda>c. c \<noteq> CHR ''{''" content] by simp
  ultimately show ?thesis by simp
qed

lemma json_match_some_span:
  assumes "json_match content = Some span"
  shows "\<exists>a b c. content = a @ CHR ''{'' # b @ CHR ''}'' # c"
proof -
  obtain b rest where d: "dropWhile (\<lambda>c. c \<noteq> CHR ''{'') content = b # rest"
    using assms by (auto simp: json_match_def split: list.splits)
  have "dropWhile (\<lambda>c. c \<noteq> CHR ''}'') (rev rest) \<noteq> []"
    using assms d unfolding json_match_def
    by (cases "dropWhile (\<lambda>c. c \<noteq> CHR ''}'') (rev rest)") simp_all
  then have "CHR ''}'' \<in> set rest"
    by (auto simp: dropWhile_eq_Nil_conv)
  then obtain m c where "rest = m @ CHR ''}'' # c"
    by (auto dest: split_list)
  with first_brace_split [OF d] show ?thesis by metis
qed

lemma json_match_none:
  assumes "json_match content = None"
  shows "\<not> (\<exists>a b c. content = a @ CHR ''{'' # b @ CHR ''}'' # c)"
proof
  assume "\<exists>a b c. content = a @ CHR ''{'' # b @ CHR ''}'' # c"
  then obtain a m c where c: "content = a @ CHR ''{'' # m @ CHR ''}'' # c" by blast
  then have "dropWhile (\<lambda>c. c \<noteq> CHR ''{'') content \<noteq> []"
    by (auto simp: dropWhile_eq_Nil_conv)
  then obtain b rest where d: "dropWhile (\<lambda>c. c \<noteq> CHR ''{'') content = b # rest"
    by (cases "dropWhile (\<lambda>c. c \<noteq> CHR ''{'') content") auto
  let ?t = "takeWhile (\<lambda>c. c \<noteq> CHR ''{'') content"
  have e: "?t @ CHR ''{'' # rest = a @ CHR ''{'' # m @ CHR ''}'' # c"
    using first_brace_split [OF d] c by simp
  have n: "CHR ''{'' \<notin> set ?t"
    using set_takeWhileD [of "CHR ''{''" "\<lambda>c. c \<noteq> CHR ''{''" content] by blast
  have "CHR ''}'' \<in> set rest"
    using e n by (auto simp: append_eq_append_conv2 Cons_eq_append_conv append_eq_Cons_conv)
  then have "dropWhile (\<lambda>c. c \<noteq> CHR ''}'') (rev rest) \<noteq> []"
    by (auto simp: dropWhile_eq_Nil_conv)
  with assms d show False
    by (auto simp: json_match_def split: list.splits)
qed

lemma json_match_none_iff:
  "json_match content = None \<longleftrightarrow> \<not> (\<exists>a b c. content = a @ CHR ''{'' # b @ CHR ''}'' # c)"
  using json_match_none json_match_some_span by (cases "json_match content") blast+

section \<open>The generators\<close>

lemmas gen_defs =
  generateEmailContent_def generateSocialContent_def generatePPCContent_def
  generateSMSContent_def email_try_def social_try_def ppc_try_def sms_try_def

lemma generate_failure_message:
  "generate jp g r = Inl x \<Longrightarrow> x = spec_failure g"
  by (cases g) (auto simp: generateEmailContent_def generateSocialContent_def
      generatePPCContent_def generateSMSContent_def spec_failure_def split: sum.splits)

lemma generate_no_extraction:
  assumes "extract_json jp r = Inl x"
  shows "generate jp g r = Inl (spec_failure g)"
proof -
  have "\<exists>y. generate jp g r = Inl y"
    using assms by (cases g) (auto simp: gen_defs)
  then show ?thesis
    using generate_failure_message by blast
qed

lemma generate_falsy_field:
  assumes "extract_json jp r = Inr parsed"
    and "f \<in> set (spec_required_fields g)"
    and "get_prop parsed f = Inr v" and "falsy v"
  shows "generate jp g r = Inl (spec_failure g)"
proof -
  have "\<exists>y. generate jp g r = Inl y"
    using assms
    by (cases g) (auto simp: gen_defs split: sum.splits option.splits)
  then show ?thesis
    using generate_failure_message by blast
qed

lemma not_falsy_iff: "\<not> falsy x \<longleftrightarrow> (\<exists>v. x = Some v \<and> truthy v)"
  by (cases x) auto

lemma social_object_body: "get_prop (social_object body cta d) ''body'' = Inr (Some body)"
  by (simp add: social_object_def)

lemma generate_success:
  assumes "generate jp g r = Inr c"
  shows "\<exists>parsed. extract_json jp r = Inr parsed
           \<and> (\<forall>f \<in> set (spec_required_fields g).
                 \<exists>v. get_prop parsed f = Inr (Some v) \<and> truthy v \<and> get_prop c f = Inr (Some v))
           \<and> ((\<forall>pf. g \<noteq> GenSocial pf) \<longrightarrow> c = parsed)"
proof (cases g)
  case GenEmail
  with assms show ?thesis
    by (auto simp: generateEmailContent_def email_try_def not_falsy_iff
        split: sum.splits if_splits)
next
  case (GenSocial pf)
  with assms show ?thesis
    by (auto simp: generateSocialContent_def social_try_def social_object_body
        split: sum.splits if_splits option.splits)
next
  case GenPPC
  with assms show ?thesis
    by (auto simp: generatePPCContent_def ppc_try_def not_falsy_iff
        split: sum.splits if_splits)
next
  case GenSMS
  with assms show ?thesis
    by (auto simp: generateSMSContent_def sms_try_def not_falsy_iff
        split: sum.splits if_splits)
qed

lemma extract_json_reply:
  "extract_json jp (LLMReply content) = Inr parsed \<longleftrightarrow>
     (\<exists>span. json_match content = Some span \<and> jp span = Some parsed)"
  by (auto simp: extract_json_def split: option.splits)

section \<open>Claims about the generators\<close>

text \<open>
  Claim C6, as amended. A reply is leading prose, an object's text from its opening to
  its closing brace, and trailing prose. When the leading prose has no opening brace and
  the trailing prose no closing brace, the extraction hands exactly the object's text to
  \<^verbatim>\<open>JSON.parse\<close>, so that an object which parses is the result. When the reply has no
  opening brace followed somewhere by a closing brace, the extraction fails with
  \<^verbatim>\<open>No JSON found in AI response\<close> and every generator fails with its own message.
\<close>

theorem extraction_of_embedded_object:
  "(CHR ''{'' \<notin> set pre \<and> CHR ''}'' \<notin> set post \<and> jp (CHR ''{'' # mid @ [CHR ''}'']) = Some v
      \<longrightarrow> json_match (pre @ CHR ''{'' # mid @ CHR ''}'' # post) = Some (CHR ''{'' # mid @ [CHR ''}''])
          \<and> extract_json jp (LLMReply (pre @ CHR ''{'' # mid @ CHR ''}'' # post)) = Inr v)
   \<and> ((\<nexists>a b c. content = a @ CHR ''{'' # b @ CHR ''}'' # c)
      \<longrightarrow> extract_json jp (LLMReply content) = Inl (Error ''No JSON found in AI response'')
          \<and> generate jp g (LLMReply content) = Inl (spec_failure g))"
proof (intro conjI impI)
  assume "CHR ''{'' \<notin> set pre \<and> CHR ''}'' \<notin> set post \<and> jp (CHR ''{'' # mid @ [CHR ''}'']) = Some v"
  then show "json_match (pre @ CHR ''{'' # mid @ CHR ''}'' # post) = Some (CHR ''{'' # mid @ [CHR ''}''])"
    by (simp add: json_match_embedded)
next
  assume "CHR ''{'' \<notin> set pre \<and> CHR ''}'' \<notin> set post \<and> jp (CHR ''{'' # mid @ [CHR ''}'']) = Some v"
  then show "extract_json jp (LLMReply (pre @ CHR ''{'' # mid @ CHR ''}'' # post)) = Inr v"
    by (simp add: extract_json_def json_match_embedded)
next
  assume "\<nexists>a b c. content = a @ CHR ''{'' # b @ CHR ''}'' # c"
  then have n: "json_match content = None"
    by (simp add: json_match_none_iff)
  then show x: "extract_json jp (LLMReply content) = Inl (Error ''No JSON found in AI response'')"
    by (simp add: extract_json_def)
  assume "\<nexists>a b c. content = a @ CHR ''{'' # b @ CHR ''}'' # c"
  show "generate jp g (LLMReply content) = Inl (spec_failure g)"
    using x by (rule generate_no_extraction)
qed

text \<open>
  The amended claim C6 at a reply with prose on both sides, and at a reply without braces.
\<close>

theorem extraction_of_embedded_object_witness:
  \<open>extract_json (\<lambda>s. if s = ''{"headline":"Act Now","description":"Big savings today"}''
                      then Some (JObj [(''headline'', JStr ''Act Now''), (''description'', JStr ''Big savings today'')])
                      else None)
     (LLMReply ''Sure! {"headline":"Act Now","description":"Big savings today"} Enjoy.'')
     = Inr (JObj [(''headline'', JStr ''Act Now''), (''description'', JStr ''Big savings today'')])
   \<and> generate (\<lambda>s. None) GenPPC (LLMReply ''I cannot help with that.'')
     = Inl (Error ''Failed to generate PPC content. Please try again.'')\<close>
proof -
  let ?jp = \<open>\<lambda>s. if s = ''{"headline":"Act Now","description":"Big savings today"}''
                      then Some (JObj [(''headline'', JStr ''Act Now''), (''description'', JStr ''Big savings today'')])
                      else None\<close>
  have n: "\<nexists>a b c. ''I cannot help with that.'' = a @ CHR ''{'' # b @ CHR ''}'' # c"
    using json_match_none_iff [of "''I cannot help with that.''"] by (simp add: json_match_def)
  have a: \<open>extract_json ?jp (LLMReply (''Sure! '' @ CHR ''{'' # ''"headline":"Act Now","description":"Big savings today"'' @ CHR ''}'' # '' Enjoy.''))
     = Inr (JObj [(''headline'', JStr ''Act Now''), (''description'', JStr ''Big savings today'')])\<close>
    using extraction_of_embedded_object [of "''Sure! ''" "'' Enjoy.''" ?jp
        \<open>''"headline":"Act Now","description":"Big savings today"''\<close>
        \<open>JObj [(''headline'', JStr ''Act Now''), (''description'', JStr ''Big savings today'')]\<close>]
    by simp
  have b: "generate (\<lambda>s. None) GenPPC (LLMReply ''I cannot help with that.'') = Inl (spec_failure GenPPC)"
    using extraction_of_embedded_object [of "[]" "[]" "\<lambda>s. None" "[]" JNull "''I cannot help with that.''" GenPPC] n
    by blast
  show ?thesis using a b by (simp add: spec_failure_def)
qed

text \<open>
  Claim C6 as stated fails when the trailing prose has a closing brace: the greedy match
  runs to the last closing brace of the reply, the span is no longer the object's text,
  and a parser that accepts the object's text and nothing longer rejects it.
\<close>

theorem extraction_trailing_brace_counterexample:
  \<open>json_match ''Sure! {"body":"Hi"} Enjoy :}'' = Some ''{"body":"Hi"} Enjoy :}''
   \<and> extract_json (\<lambda>s. if s = ''{"body":"Hi"}'' then Some (JObj [(''body'', JStr ''Hi'')]) else None)
        (LLMReply ''Sure! {"body":"Hi"} Enjoy :}'') = Inl (Error ''Unexpected token in JSON'')\<close>
  by (simp add: extract_json_def json_match_def)

text \<open>
  Claim C7. For every generator call: an extracted object that lacks one of the required
  fields fails the generation although it parsed; every failure is the error
  \<^verbatim>\<open>Failed to generate X content. Please try again.\<close> of that channel; and a generation
  that returns content does so only from a reply whose span parsed to an object with
  every required field present and truthy, the content carrying those very values (for
  email, PPC and SMS it is the parsed object itself), so nothing is ever made up in place
  of a failed generation.
\<close>

theorem required_fields_enforced:
  "(json_match content = Some span \<and> jp span = Some (JObj fs)
      \<and> f \<in> set (spec_required_fields g) \<and> map_of fs f = None
      \<longrightarrow> generate jp g (LLMReply content) = Inl (spec_failure g))
   \<and> (generate jp g r = Inl x \<longrightarrow> x = spec_failure g)
   \<and> (generate jp g r = Inr c \<longrightarrow>
        (\<exists>reply span parsed. r = LLMReply reply \<and> json_match reply = Some span \<and> jp span = Some parsed
           \<and> (\<forall>f \<in> set (spec_required_fields g).
                 \<exists>v. get_prop parsed f = Inr (Some v) \<and> truthy v \<and> get_prop c f = Inr (Some v))
           \<and> ((\<forall>pf. g \<noteq> GenSocial pf) \<longrightarrow> c = parsed)))"
proof (intro conjI impI)
  assume a: "json_match content = Some span \<and> jp span = Some (JObj fs)
      \<and> f \<in> set (spec_required_fields g) \<and> map_of fs f = None"
  then have "extract_json jp (LLMReply content) = Inr (JObj fs)"
    by (simp add: extract_json_def)
  then show "generate jp g (LLMReply content) = Inl (spec_failure g)"
    using a generate_falsy_field [of jp "LLMReply content" "JObj fs" f g None] by simp
next
  assume "generate jp g r = Inl x"
  then show "x = spec_failure g" by (rule generate_failure_message)
next
  assume s: "generate jp g r = Inr c"
  from generate_success [OF s] obtain parsed where
    p: "extract_json jp r = Inr parsed"
      "\<forall>f \<in> set (spec_required_fields g).
         \<exists>v. get_prop parsed f = Inr (Some v) \<and> truthy v \<and> get_prop c f = Inr (Some v)"
      "(\<forall>pf. g \<noteq> GenSocial pf) \<longrightarrow> c = parsed"
    by blast
  from p(1) obtain reply where r: "r = LLMReply reply"
    by (cases r) (auto simp: extract_json_def)
  with p(1) obtain span where "json_match reply = Some span" "jp span = Some parsed"
    by (auto simp: extract_json_reply)
  with r p(2,3) show "\<exists>reply span parsed. r = LLMReply reply \<and> json_match reply = Some span \<and> jp span = Some parsed
           \<and> (\<forall>f \<in> set (spec_required_fields g).
                 \<exists>v. get_prop parsed f = Inr (Some v) \<and> truthy v \<and> get_prop c f = Inr (Some v))
           \<and> ((\<forall>pf. g \<noteq> GenSocial pf) \<longrightarrow> c = parsed)"
    by blast
qed

text \<open>
  Claim C7 at an email reply without a subject, at a model that throws, and at an SMS
  reply that succeeds.
\<close>

theorem required_fields_enforced_witness:
  \<open>generate (\<lambda>s. if s = ''{"body":"Hello"}'' then Some (JObj [(''body'', JStr ''Hello'')]) else None)
      GenEmail (LLMReply ''Here you go: {"body":"Hello"}'')
     = Inl (Error ''Failed to generate email content. Please try again.'')
   \<and> generate (\<lambda>s. None) GenSMS (LLMThrows ''timeout'')
     = Inl (Error ''Failed to generate SMS content. Please try again.'')
   \<and> generate (\<lambda>s. if s = ''{"body":"Hello"}'' then Some (JObj [(''body'', JStr ''Hello'')]) else None)
      GenSMS (LLMReply ''Here you go: {"body":"Hello"}'')
     = Inr (JObj [(''body'', JStr ''Hello'')])\<close>
proof -
  let ?jp = \<open>\<lambda>s. if s = ''{"body":"Hello"}'' then Some (JObj [(''body'', JStr ''Hello'')]) else None\<close>
  let ?reply = \<open>''Here you go: {"body":"Hello"}''\<close>
  let ?obj = \<open>JObj [(''body'', JStr ''Hello'')]\<close>
  have m: \<open>json_match ?reply = Some ''{"body":"Hello"}''\<close>
    by (simp add: json_match_def)
  have a: "generate ?jp GenEmail (LLMReply ?reply) = Inl (spec_failure GenEmail)"
    using required_fields_enforced [of ?reply \<open>''{"body":"Hello"}''\<close> ?jp "[(''body'', JStr ''Hello'')]"
        "''subject''" GenEmail] m
    by simp
  have t: "generate (\<lambda>s. None) GenSMS (LLMThrows ''timeout'') = Inl (spec_failure GenSMS)"
    by (simp add: generateSMSContent_def sms_try_def extract_json_def spec_failure_def)
  have b: "spec_failure GenSMS = spec_failure GenSMS"
    using required_fields_enforced [of "[]" "[]" "\<lambda>s. None" "[]" "[]" GenSMS "LLMThrows ''timeout''"
        "spec_failure GenSMS"] t
    by simp
  have c: "generate ?jp GenSMS (LLMReply ?reply) = Inr ?obj"
    by (simp add: generateSMSContent_def sms_try_def extract_json_def m)
  have d: "\<exists>v. get_prop ?obj ''body'' = Inr (Some v) \<and> truthy v"
    using required_fields_enforced [of "[]" "[]" ?jp "[]" "[]" GenSMS "LLMReply ?reply" undefined ?obj] c
    by auto
  show ?thesis using a t b c d by (simp add: spec_failure_def)
qed

text \<open>
  Claim C10. A parsed object whose required field is the empty string fails the
  generation with the channel's error, and that is the very result of a run whose parsed
  object lacks the field.
\<close>

theorem empty_required_field_fails:
  "extract_json jp r = Inr (JObj fs) \<and> map_of fs f = Some (JStr [])
   \<and> extract_json jp' r' = Inr (JObj fs') \<and> map_of fs' f = None
   \<and> f \<in> set (spec_required_fields g)
   \<longrightarrow> generate jp g r = Inl (spec_failure g) \<and> generate jp g r = generate jp' g r'"
proof
  assume a: "extract_json jp r = Inr (JObj fs) \<and> map_of fs f = Some (JStr [])
   \<and> extract_json jp' r' = Inr (JObj fs') \<and> map_of fs' f = None
   \<and> f \<in> set (spec_required_fields g)"
  have "generate jp g r = Inl (spec_failure g)"
    using a generate_falsy_field [of jp r "JObj fs" f g "Some (JStr [])"] by simp
  moreover have "generate jp' g r' = Inl (spec_failure g)"
    using a generate_falsy_field [of jp' r' "JObj fs'" f g None] by simp
  ultimately show "generate jp g r = Inl (spec_failure g) \<and> generate jp g r = generate jp' g r'"
    by simp
qed

text \<open>
  Claim C10 at an email object with an empty subject, against one with no subject.
\<close>

theorem empty_required_field_fails_witness:
  \<open>generate (\<lambda>s. Some (JObj [(''subject'', JStr []), (''body'', JStr ''Hello'')])) GenEmail (LLMReply ''{}'')
     = Inl (Error ''Failed to generate email content. Please try again.'')
   \<and> generate (\<lambda>s. Some (JObj [(''subject'', JStr []), (''body'', JStr ''Hello'')])) GenEmail (LLMReply ''{}'')
     = generate (\<lambda>s. Some (JObj [(''body'', JStr ''Hello'')])) GenEmail (LLMReply ''{}'')\<close>
proof -
  have m: "json_match ''{}'' = Some ''{}''"
    by (simp add: json_match_def)
  show ?thesis
    using empty_required_field_fails
      [of "\<lambda>s. Some (JObj [(''subject'', JStr []), (''body'', JStr ''Hello'')])" "LLMReply ''{}''"
          "[(''subject'', JStr []), (''body'', JStr ''Hello'')]" "''subject''"
          "\<lambda>s. Some (JObj [(''body'', JStr ''Hello'')])" "LLMReply ''{}''"
          "[(''body'', JStr ''Hello'')]" GenEmail] m
    unfolding spec_failure_def extract_json_def by auto
qed

section \<open>Claims about the intent parser\<close>

lemma z_string_Some: "z_string v = Some s \<longleftrightarrow> v = JStr s"
  by (cases v) auto

lemma z_boolean_Some: "z_boolean v = Some b \<longleftrightarrow> v = JBool b"
  by (cases v) auto

lemma z_enum_channel_Some: "z_enum_channel v = Some c \<longleftrightarrow> v = JStr (channel_name c)"
  by (cases v; cases c) (auto split: if_splits)

lemma all_valid_SomeD:
  "all_valid os = Some ys \<Longrightarrow> os = map Some ys"
proof (induction os arbitrary: ys rule: all_valid.induct)
  case 1
  then show ?case by auto
next
  case (2 xs)
  then show ?case by auto
next
  case (3 a xs)
  then show ?case by (auto split: option.splits)
qed

lemma z_array_channels:
  assumes "z_array z_enum_channel v = Some chs"
  shows "v = JArr (map (\<lambda>c. JStr (channel_name c)) chs)"
proof -
  obtain xs where v: "v = JArr xs"
    using assms by (cases v) auto
  with assms have "map z_enum_channel xs = map Some chs"
    by (simp add: all_valid_SomeD)
  then have "xs = map (\<lambda>c. JStr (channel_name c)) chs"
  proof (induction xs arbitrary: chs)
    case Nil
    then show ?case by simp
  next
    case (Cons x xs)
    then show ?case by (cases chs) (auto simp: z_enum_channel_Some)
  qed
  with v show ?thesis by simp
qed

lemma z_required_Some: "z_required p f = Some a \<longleftrightarrow> (\<exists>v. f = Some v \<and> p v = Some a)"
  by (cases f) auto

lemma contentSpecSchema_keyMessage:
  assumes "contentSpecSchema v = Some cs"
  shows "\<exists>cfs. v = JObj cfs \<and> map_of cfs ''keyMessage'' = Some (JStr (keyMessage cs))"
proof -
  obtain cfs where v: "v = JObj cfs"
    using assms by (cases v) auto
  with assms show ?thesis
    by (auto simp: z_required_Some z_string_Some split: Option.bind_splits)
qed

lemma campaignSchema_fields:
  assumes "campaignSchema v = Some intent"
  shows "\<exists>fs cfs. v = JObj fs
           \<and> map_of fs ''goal'' = Some (JStr (goal intent))
           \<and> map_of fs ''channels'' = Some (JArr (map (\<lambda>c. JStr (channel_name c)) (channels intent)))
           \<and> map_of fs ''contentSpec'' = Some (JObj cfs)
           \<and> map_of cfs ''keyMessage'' = Some (JStr (keyMessage (contentSpec intent)))
           \<and> map_of fs ''needsClarification'' = Some (JBool (needsClarification intent))"
proof -
  obtain fs where v: "v = JObj fs"
    using assms by (cases v) auto
  from assms v obtain g chs cs nc where
    g: "z_required z_string (map_of fs ''goal'') = Some g" "goal intent = g"
    and c: "z_required (z_array z_enum_channel) (map_of fs ''channels'') = Some chs" "channels intent = chs"
    and k: "z_required contentSpecSchema (map_of fs ''contentSpec'') = Some cs" "contentSpec intent = cs"
    and n: "z_required z_boolean (map_of fs ''needsClarification'') = Some nc" "needsClarification intent = nc"
    by (auto split: Option.bind_splits)
  from g have 1: "map_of fs ''goal'' = Some (JStr (goal intent))"
    by (auto simp: z_required_Some z_string_Some)
  from c have 2: "map_of fs ''channels'' = Some (JArr (map (\<lambda>c. JStr (channel_name c)) (channels intent)))"
    by (auto simp: z_required_Some dest: z_array_channels)
  from k obtain cfs where 3: "map_of fs ''contentSpec'' = Some (JObj cfs)"
    "map_of cfs ''keyMessage'' = Some (JStr (keyMessage (contentSpec intent)))"
    by (auto simp: z_required_Some dest: contentSpecSchema_keyMessage)
  from n have 4: "map_of fs ''needsClarification'' = Some (JBool (needsClarification intent))"
    by (auto simp: z_required_Some z_boolean_Some)
  from v 1 2 3 4 show ?thesis by blast
qed

text \<open>
  Claim C1, as amended. Whatever \<^verbatim>\<open>needsClarification\<close> is, an intent that
  \<^verbatim>\<open>parseCampaignIntent\<close> returns comes from a reply that decoded to an object holding
  \<^verbatim>\<open>goal\<close> as a string, \<^verbatim>\<open>channels\<close> as an array of the four channel literals only,
  \<^verbatim>\<open>contentSpec.keyMessage\<close> as a string and \<^verbatim>\<open>needsClarification\<close> as a boolean, and
  the intent holds these very values; any other reply is rejected. The strings and the
  array may be empty.
\<close>

theorem schema_gate:
  "parseCampaignIntent decode response = Inr intent \<longrightarrow>
     (\<exists>reply fs cfs. response = LLMReply reply \<and> decode reply = Some (JObj fs)
         \<and> map_of fs ''goal'' = Some (JStr (goal intent))
         \<and> map_of fs ''channels'' = Some (JArr (map (\<lambda>c. JStr (channel_name c)) (channels intent)))
         \<and> map_of fs ''contentSpec'' = Some (JObj cfs)
         \<and> map_of cfs ''keyMessage'' = Some (JStr (keyMessage (contentSpec intent)))
         \<and> map_of fs ''needsClarification'' = Some (JBool (needsClarification intent)))"
proof
  assume a: "parseCampaignIntent decode response = Inr intent"
  then obtain reply where r: "response = LLMReply reply"
    by (cases response) (auto simp: parseCampaignIntent_def)
  with a obtain v where d: "decode reply = Some v" "campaignSchema v = Some intent"
    by (auto simp: parseCampaignIntent_def split: option.splits)
  from campaignSchema_fields [OF d(2)] r d(1)
  show "\<exists>reply fs cfs. response = LLMReply reply \<and> decode reply = Some (JObj fs)
         \<and> map_of fs ''goal'' = Some (JStr (goal intent))
         \<and> map_of fs ''channels'' = Some (JArr (map (\<lambda>c. JStr (channel_name c)) (channels intent)))
         \<and> map_of fs ''contentSpec'' = Some (JObj cfs)
         \<and> map_of cfs ''keyMessage'' = Some (JStr (keyMessage (contentSpec intent)))
         \<and> map_of fs ''needsClarification'' = Some (JBool (needsClarification intent))"
    by blast
qed

text \<open>
  Claim C1 as stated fails: a reply with an empty goal, no channel and an empty key
  message, and \<^verbatim>\<open>needsClarification\<close> false, passes the schema.
\<close>

theorem schema_accepts_empty_counterexample:
  \<open>parseCampaignIntent
     (\<lambda>s. if s = ''{"goal":"","channels":[],"contentSpec":{"keyMessage":""},"audienceCriteria":{},"needsClarification":false}''
          then Some (JObj [(''goal'', JStr []), (''channels'', JArr []),
                           (''contentSpec'', JObj [(''keyMessage'', JStr [])]),
                           (''audienceCriteria'', JObj []), (''needsClarification'', JBool False)])
          else None)
     (LLMReply ''{"goal":"","channels":[],"contentSpec":{"keyMessage":""},"audienceCriteria":{},"needsClarification":false}'')
   = Inr \<lparr>goal = [], channels = [],
          contentSpec = \<lparr>tone = None, keyMessage = [], callToAction = None\<rparr>,
          audienceCriteria = \<lparr>demographics = None, interests = None, location = None\<rparr>,
          budget = None, schedule = None, needsClarification = False,
          clarificationQuestions = None\<rparr>\<close>
  by (simp add: parseCampaignIntent_def)

text \<open>Claim C1, as amended, at the reply of a fully specified email campaign.\<close>

theorem schema_gate_witness:
  \<open>parseCampaignIntent
     (\<lambda>s. if s = ''{"goal":"increase signups","channels":["email"],"contentSpec":{"keyMessage":"New feature"},"audienceCriteria":{},"needsClarification":false}''
          then Some (JObj [(''goal'', JStr ''increase signups''), (''channels'', JArr [JStr ''email'']),
                           (''contentSpec'', JObj [(''keyMessage'', JStr ''New feature'')]),
                           (''audienceCriteria'', JObj []), (''needsClarification'', JBool False)])
          else None)
     (LLMReply ''{"goal":"increase signups","channels":["email"],"contentSpec":{"keyMessage":"New feature"},"audienceCriteria":{},"needsClarification":false}'')
   = Inr \<lparr>goal = ''increase signups'', channels = [Email],
          contentSpec = \<lparr>tone = None, keyMessage = ''New feature'', callToAction = None\<rparr>,
          audienceCriteria = \<lparr>demographics = None, interests = None, location = None\<rparr>,
          budget = None, schedule = None, needsClarification = False,
          clarificationQuestions = None\<rparr>
   \<and> (\<exists>fs. map_of fs ''goal'' = Some (JStr ''increase signups'')
            \<and> map_of fs ''channels'' = Some (JArr [JStr ''email'']))\<close>
proof -
  let ?reply = \<open>''{"goal":"increase signups","channels":["email"],"contentSpec":{"keyMessage":"New feature"},"audienceCriteria":{},"needsClarification":false}''\<close>
  let ?decode = \<open>\<lambda>s. if s = ?reply
          then Some (JObj [(''goal'', JStr ''increase signups''), (''channels'', JArr [JStr ''email'']),
                           (''contentSpec'', JObj [(''keyMessage'', JStr ''New feature'')]),
                           (''audienceCriteria'', JObj []), (''needsClarification'', JBool False)])
          else None\<close>
  let ?intent = \<open>\<lparr>goal = ''increase signups'', channels = [Email],
          contentSpec = \<lparr>tone = None, keyMessage = ''New feature'', callToAction = None\<rparr>,
          audienceCriteria = \<lparr>demographics = None, interests = None, location = None\<rparr>,
          budget = None, schedule = None, needsClarification = False,
          clarificationQuestions = None\<rparr>\<close>
  have p: "parseCampaignIntent ?decode (LLMReply ?reply) = Inr ?intent"
    by (simp add: parseCampaignIntent_def)
  from schema_gate [of ?decode "LLMReply ?reply" ?intent] p
  obtain fs where "map_of fs ''goal'' = Some (JStr (goal ?intent))"
    "map_of fs ''channels'' = Some (JArr (map (\<lambda>c. JStr (channel_name c)) (channels ?intent)))"
    by (elim impE exE conjE)
  then have x: "\<exists>fs. map_of fs ''goal'' = Some (JStr ''increase signups'')
            \<and> map_of fs ''channels'' = Some (JArr [JStr ''email''])"
    by (intro exI [of _ fs]) simp
  from p x show ?thesis by (rule conjI)
qed

section \<open>Claims about the campaign route\<close>

text \<open>
  The clarification branch: the response is a clarification carrying the rendered
  response, no generator is called and no campaign is stored.
\<close>

lemma clarification_short_circuit:
  assumes "parseCampaignIntent (env_decode e) (env_parse_reply e) = Inr intent"
    and "needsClarification intent"
    and "append_user_message rq w = Inr (cid, w1)"
  shows "fst (POST e rq w) = ClarificationResponse (generateResponse intent (req_prompt rq)) intent cid"
    and "gen_calls (snd (POST e rq w)) = gen_calls w"
    and "campaigns (snd (POST e rq w)) = campaigns w"
  using assms
  by (auto simp: POST_def Let_def append_user_message_def split: option.splits if_splits)

text \<open>
  When the intent has clarification questions, the message is the fixed opening, the
  questions in their order, each after its number, and the fixed closing.
\<close>

lemma clarification_questions_rendered:
  assumes "needsClarification intent" and "clarificationQuestions intent = Some qs"
  shows "generateResponse intent p = clarification_message qs"
  using assms by (simp add: generateResponse_def)

lemma numbered_nth:
  "i < length qs \<Longrightarrow> numbered qs ! i = nat_to_string (Suc i) @ ''. '' @ qs ! i"
  unfolding numbered_def by (simp add: nth_enumerate_eq del: nat_to_string.simps)

text \<open>
  Claim C2. The schema leaves \<^verbatim>\<open>clarificationQuestions\<close> optional. For an intent with
  \<^verbatim>\<open>needsClarification\<close> true and no questions the route answers with a clarification
  whose message is the confirmation text: it announces that the campaign content is being
  generated, although no generator is called and no campaign is stored. The message is
  also what the route hands to the conversation table after the user's prompt.
\<close>

theorem clarification_without_questions:
  \<open>POST
     \<lparr>env_parse_reply = LLMReply ''{"goal":"grow signups","channels":["email"],"contentSpec":{"keyMessage":"New feature"},"audienceCriteria":{},"needsClarification":true}'',
      env_decode = (\<lambda>s. if s = ''{"goal":"grow signups","channels":["email"],"contentSpec":{"keyMessage":"New feature"},"audienceCriteria":{},"needsClarification":true}''
          then Some (JObj [(''goal'', JStr ''grow signups''), (''channels'', JArr [JStr ''email'']),
                           (''contentSpec'', JObj [(''keyMessage'', JStr ''New feature'')]),
                           (''audienceCriteria'', JObj []), (''needsClarification'', JBool True)])
          else None),
      env_gen_reply = (\<lambda>n. LLMThrows ''not reached''),
      env_JSON_parse = (\<lambda>s. None),
      env_fetch = (\<lambda>n. Inl ''not reached'')\<rparr>
     \<lparr>req_user = ''u1'', req_prompt = ''Launch an email campaign'', req_conversationId = None\<rparr>
     \<lparr>conversations = [], campaigns = [], integrations = [], gen_calls = [], conv_writes = []\<rparr>
   = (ClarificationResponse
        (''Perfect! I'' @ [CHR 0x27] @ ''m creating a email campaign to grow signups.''
         @ [CHR 0x0A, CHR 0x0A] @ ''Key Message: New feature''
         @ [CHR 0x0A, CHR 0x0A] @ ''Target Audience: General audience''
         @ [CHR 0x0A, CHR 0x0A] @ ''I'' @ [CHR 0x27]
         @ ''ll now generate the campaign content and set everything up. Would you like to review the content before we launch?'')
        \<lparr>goal = ''grow signups'', channels = [Email],
          contentSpec = \<lparr>tone = None, keyMessage = ''New feature'', callToAction = None\<rparr>,
          audienceCriteria = \<lparr>demographics = None, interests = None, location = None\<rparr>,
          budget = None, schedule = None, needsClarification = True,
          clarificationQuestions = None\<rparr>
        0,
      \<lparr>conversations =
         [\<lparr>conv_userId = ''u1'',
           conv_messages =
             JObj [(''push'',
               JArr [JObj [(''role'', JStr ''assistant''),
                 (''content'', JStr
                   (''Perfect! I'' @ [CHR 0x27] @ ''m creating a email campaign to grow signups.''
                    @ [CHR 0x0A, CHR 0x0A] @ ''Key Message: New feature''
                    @ [CHR 0x0A, CHR 0x0A] @ ''Target Audience: General audience''
                    @ [CHR 0x0A, CHR 0x0A] @ ''I'' @ [CHR 0x27]
                    @ ''ll now generate the campaign content and set everything up. Would you like to review the content before we launch?''))]])],
           conv_currentCampaignId = None\<rparr>],
       campaigns = [], integrations = [], gen_calls = [],
       conv_writes =
         [(0, \<lparr>msg_role = ''user'', msg_content = ''Launch an email campaign'', msg_campaignId = None\<rparr>),
          (0, \<lparr>msg_role = ''assistant'',
               msg_content =
                 ''Perfect! I'' @ [CHR 0x27] @ ''m creating a email campaign to grow signups.''
                 @ [CHR 0x0A, CHR 0x0A] @ ''Key Message: New feature''
                 @ [CHR 0x0A, CHR 0x0A] @ ''Target Audience: General audience''
                 @ [CHR 0x0A, CHR 0x0A] @ ''I'' @ [CHR 0x27]
                 @ ''ll now generate the campaign content and set everything up. Would you like to review the content before we launch?'',
               msg_campaignId = None\<rparr>)]\<rparr>)\<close>
  by (simp add: POST_def parseCampaignIntent_def append_user_message_def generateResponse_def
      confirmation_message_def budgetText_def or_default_def update_messages_push_def
      message_json_def user_message_def assistant_message_def Let_def)

subsection \<open>The fan-out\<close>

lemma update_not_Nil: "AList.update k v al \<noteq> []"
  by (cases al) auto

lemma update_keys: "fst ` set (AList.update k v al) = insert k (fst ` set al)"
  by (simp add: dom_update)

lemma update_entries:
  "x \<in> set (AList.update k v al) \<Longrightarrow> x = (k, v) \<or> x \<in> set al"
  by (induction al) (auto split: if_splits)

lemmas fan_defs = await_generate_def assign_def Let_def

lemma try_channel_errors: "contentErrors (snd (try_channel e ch s)) = contentErrors s"
  by (cases ch) (auto simp: fan_defs split: sum.splits)

lemma try_channel_keys_mono:
  "k \<in> fst ` set (generatedContent s) \<Longrightarrow> k \<in> fst ` set (generatedContent (snd (try_channel e ch s)))"
  by (cases ch) (auto simp: fan_defs update_keys split: sum.splits)

lemma try_channel_success_keys:
  "fst (try_channel e ch s) = None \<Longrightarrow>
     set (content_keys ch) \<subseteq> fst ` set (generatedContent (snd (try_channel e ch s)))"
  by (cases ch) (auto simp: fan_defs update_keys split: sum.splits)

lemma try_channel_calls:
  "\<exists>new. calls (snd (try_channel e ch s)) = calls s @ new
     \<and> (generatedContent (snd (try_channel e ch s)) = [] \<longleftrightarrow>
          generatedContent s = [] \<and> (\<forall>(g, r) \<in> set new. isl (generate (env_JSON_parse e) g r)))"
  by (cases ch) (auto simp: fan_defs update_not_Nil split: sum.splits)

lemma try_channel_generated:
  "generated e n s \<Longrightarrow> generated e n (snd (try_channel e ch s))"
proof -
  assume g: "generated e n s"
  have step: "generated e n (assign k v (snd (await_generate e c s')))"
    if "generated e n s'" and "fst (await_generate e c s') = Inr v" and "gen_key c = k"
    for s' c k v
    using that unfolding generated_def
    by (fastforce simp: fan_defs dest!: update_entries)
  have keep: "generated e n (snd (await_generate e c s'))" if "generated e n s'" for s' c
    using that unfolding generated_def by (fastforce simp: fan_defs)
  show ?thesis
  proof (cases ch)
    case Email
    then show ?thesis
      using step [OF g, of GenEmail] keep [OF g, of GenEmail]
      by (auto split: sum.splits prod.splits)
  next
    case Social
    show ?thesis
    proof (cases "fst (await_generate e (GenSocial Facebook) s)")
      case (Inl x)
      then show ?thesis
        using Social keep [OF g, of "GenSocial Facebook"]
        by (auto split: sum.splits prod.splits)
    next
      case (Inr c)
      let ?s1 = "assign ''facebook'' c (snd (await_generate e (GenSocial Facebook) s))"
      have g1: "generated e n ?s1"
        using step [OF g Inr] by simp
      show ?thesis
        using Social Inr step [OF g1, of "GenSocial Instagram"] keep [OF g1, of "GenSocial Instagram"]
        by (auto split: sum.splits prod.splits)
    qed
  next
    case Ppc
    then show ?thesis
      using step [OF g, of GenPPC] keep [OF g, of GenPPC]
      by (auto split: sum.splits prod.splits)
  next
    case Sms
    then show ?thesis
      using step [OF g, of GenSMS] keep [OF g, of GenSMS]
      by (auto split: sum.splits prod.splits)
  qed
qed

lemma fanout_append: "fanout e (xs @ ys) s = fanout e ys (fanout e xs s)"
  by (induction xs arbitrary: s) (auto split: prod.splits option.splits)

lemma fanout_errors_mono:
  "x \<in> set (contentErrors s) \<Longrightarrow> x \<in> set (contentErrors (fanout e chs s))"
proof (induction chs arbitrary: s)
  case Nil
  then show ?case by simp
next
  case (Cons ch chs)
  obtain r s1 where t: "try_channel e ch s = (r, s1)" by (cases "try_channel e ch s")
  then have "contentErrors s1 = contentErrors s"
    using try_channel_errors [of e ch s] by simp
  with Cons t show ?case
    by (cases r) auto
qed

lemma fanout_keys_mono:
  "k \<in> fst ` set (generatedContent s) \<Longrightarrow> k \<in> fst ` set (generatedContent (fanout e chs s))"
proof (induction chs arbitrary: s)
  case Nil
  then show ?case by simp
next
  case (Cons ch chs)
  obtain r s1 where t: "try_channel e ch s = (r, s1)" by (cases "try_channel e ch s")
  then have "k \<in> fst ` set (generatedContent s1)"
    using try_channel_keys_mono [of k s e ch] Cons.prems by simp
  with Cons.IH t show ?case
    by (cases r) auto
qed

lemma fanout_calls:
  "\<exists>new. calls (fanout e chs s) = calls s @ new
     \<and> (generatedContent (fanout e chs s) = [] \<longleftrightarrow>
          generatedContent s = [] \<and> (\<forall>(g, r) \<in> set new. isl (generate (env_JSON_parse e) g r)))"
proof (induction chs arbitrary: s)
  case Nil
  then show ?case by simp
next
  case (Cons ch chs)
  obtain r s1 where t: "try_channel e ch s = (r, s1)" by (cases "try_channel e ch s")
  let ?s2 = "case r of None \<Rightarrow> s1 | Some x \<Rightarrow> s1\<lparr>contentErrors := contentErrors s1 @ [channel_warning ch]\<rparr>"
  have f: "fanout e (ch # chs) s = fanout e chs ?s2"
    using t by (cases r) auto
  have c2: "calls ?s2 = calls s1" "generatedContent ?s2 = generatedContent s1"
    by (cases r; simp)+
  from try_channel_calls [of e ch s] t obtain n1 where
    n1: "calls s1 = calls s @ n1"
      "generatedContent s1 = [] \<longleftrightarrow>
          generatedContent s = [] \<and> (\<forall>(g, r) \<in> set n1. isl (generate (env_JSON_parse e) g r))"
    by auto
  from Cons.IH [of ?s2] obtain n2 where
    n2: "calls (fanout e chs ?s2) = calls ?s2 @ n2"
      "generatedContent (fanout e chs ?s2) = [] \<longleftrightarrow>
          generatedContent ?s2 = [] \<and> (\<forall>(g, r) \<in> set n2. isl (generate (env_JSON_parse e) g r))"
    by blast
  have "calls (fanout e (ch # chs) s) = calls s @ (n1 @ n2)"
    using f n1(1) n2(1) c2 by simp
  moreover have "generatedContent (fanout e (ch # chs) s) = [] \<longleftrightarrow>
          generatedContent s = [] \<and> (\<forall>(g, r) \<in> set (n1 @ n2). isl (generate (env_JSON_parse e) g r))"
    using f n1(2) n2(2) c2 by auto
  ultimately show ?case by blast
qed

lemma fanout_generated:
  "generated e n s \<Longrightarrow> generated e n (fanout e chs s)"
proof (induction chs arbitrary: s)
  case Nil
  then show ?case by simp
next
  case (Cons ch chs)
  obtain r s1 where t: "try_channel e ch s = (r, s1)" by (cases "try_channel e ch s")
  then have "generated e n s1"
    using try_channel_generated [OF Cons.prems, of ch] by simp
  then have "generated e n (s1\<lparr>contentErrors := contentErrors s1 @ [channel_warning ch]\<rparr>)"
    by (simp add: generated_def)
  with Cons.IH t \<open>generated e n s1\<close> show ?case
    by (cases r) auto
qed

lemma fanout_round:
  assumes "i < length chs"
  shows "fanout e chs s =
     fanout e (drop (Suc i) chs)
       (case try_channel e (chs ! i) (fanout e (take i chs) s) of
          (None, s1) \<Rightarrow> s1
        | (Some x, s1) \<Rightarrow> s1\<lparr>contentErrors := contentErrors s1 @ [channel_warning (chs ! i)]\<rparr>)"
proof -
  have c: "take i chs @ chs ! i # drop (Suc i) chs = chs"
    by (rule id_take_nth_drop [OF assms, symmetric])
  have "fanout e chs s = fanout e (take i chs @ chs ! i # drop (Suc i) chs) s"
    by (simp only: c)
  also have "\<dots> = fanout e (chs ! i # drop (Suc i) chs) (fanout e (take i chs) s)"
    by (rule fanout_append)
  finally show ?thesis
    by (auto split: prod.splits option.splits)
qed

lemma fanout_round_warning:
  assumes "i < length chs" and "round_error e chs s i \<noteq> None"
  shows "channel_warning (chs ! i) \<in> set (contentErrors (fanout e chs s))"
proof -
  obtain r s1 where t: "try_channel e (chs ! i) (fanout e (take i chs) s) = (r, s1)"
    by (cases "try_channel e (chs ! i) (fanout e (take i chs) s)")
  with assms(2) obtain x where "r = Some x"
    by (auto simp: round_error_def)
  with t have "fanout e chs s =
      fanout e (drop (Suc i) chs) (s1\<lparr>contentErrors := contentErrors s1 @ [channel_warning (chs ! i)]\<rparr>)"
    by (simp add: fanout_round [OF assms(1)])
  then show ?thesis
    by (simp add: fanout_errors_mono)
qed

lemma fanout_round_keys:
  assumes "i < length chs" and "round_error e chs s i = None"
  shows "set (content_keys (chs ! i)) \<subseteq> fst ` set (generatedContent (fanout e chs s))"
proof -
  obtain r s1 where t: "try_channel e (chs ! i) (fanout e (take i chs) s) = (r, s1)"
    by (cases "try_channel e (chs ! i) (fanout e (take i chs) s)")
  with assms(2) have r: "r = None"
    by (auto simp: round_error_def)
  have k: "set (content_keys (chs ! i)) \<subseteq> fst ` set (generatedContent s1)"
    using try_channel_success_keys [of e "chs ! i" "fanout e (take i chs) s"] t r by simp
  have f: "fanout e chs s = fanout e (drop (Suc i) chs) s1"
    by (simp add: fanout_round [OF assms(1)] t r)
  show ?thesis
    unfolding f
  proof
    fix x
    assume "x \<in> set (content_keys (chs ! i))"
    then have "x \<in> fst ` set (generatedContent s1)"
      using k by blast
    then show "x \<in> fst ` set (generatedContent (fanout e (drop (Suc i) chs) s1))"
      by (rule fanout_keys_mono)
  qed
qed

lemma append_user_message_keeps:
  assumes "append_user_message rq w = Inr (cid, w1)"
  shows "campaigns w1 = campaigns w" and "gen_calls w1 = gen_calls w"
    and "integrations w1 = integrations w"
  using assms by (auto simp: append_user_message_def split: option.splits if_splits)

lemma POST_generation:
  assumes "parseCampaignIntent (env_decode e) (env_parse_reply e) = Inr intent"
    and "\<not> needsClarification intent"
    and "append_user_message rq w = Inr (cid, w1)"
  shows "POST e rq w =
     (let s = fanout e (channels intent) (fan_start w1) in
      if generatedContent s = []
      then (ErrorResponse ''Failed to generate content for any channel'' 500 (contentErrors s),
            w1\<lparr>gen_calls := calls s\<rparr>)
      else (CampaignResponse intent (generatedContent s) (length (campaigns w)) cid
              (ready_message intent) (contentErrors s),
            w1\<lparr>gen_calls := calls s,
               campaigns := campaigns w @ [new_campaign (req_user rq) intent (generatedContent s)],
               conversations :=
                 set_current_campaign cid (length (campaigns w))
                   (update_messages_push cid
                      (assistant_message (ready_message intent) (Some (length (campaigns w))))
                      (conversations w1)),
               conv_writes := conv_writes w1 @
                 [(cid, assistant_message (ready_message intent) (Some (length (campaigns w))))]\<rparr>))"
  using assms append_user_message_keeps [OF assms(3)]
  by (simp add: POST_def Let_def)

lemma POST_new_calls:
  assumes "parseCampaignIntent (env_decode e) (env_parse_reply e) = Inr intent"
    and "\<not> needsClarification intent"
    and "append_user_message rq w = Inr (cid, w1)"
  shows "calls (fanout e (channels intent) (fan_start w1)) = gen_calls w @ new_calls w (snd (POST e rq w))"
    and "generatedContent (fanout e (channels intent) (fan_start w1)) = [] \<longleftrightarrow>
           (\<forall>(g, r) \<in> set (new_calls w (snd (POST e rq w))). isl (generate (env_JSON_parse e) g r))"
proof -
  let ?s = "fanout e (channels intent) (fan_start w1)"
  from fanout_calls [of e "channels intent" "fan_start w1"] obtain new where
    n: "calls ?s = calls (fan_start w1) @ new"
      "generatedContent ?s = [] \<longleftrightarrow>
          generatedContent (fan_start w1) = [] \<and> (\<forall>(g, r) \<in> set new. isl (generate (env_JSON_parse e) g r))"
    by blast
  have c: "calls ?s = gen_calls w @ new"
    using n(1) append_user_message_keeps [OF assms(3)] by (simp add: fan_start_def)
  have "gen_calls (snd (POST e rq w)) = calls ?s"
    using POST_generation [OF assms] by (simp add: Let_def)
  then have nc: "new_calls w (snd (POST e rq w)) = new"
    using c by (simp add: new_calls_def)
  show "calls ?s = gen_calls w @ new_calls w (snd (POST e rq w))"
    using c nc by simp
  show "generatedContent ?s = [] \<longleftrightarrow>
           (\<forall>(g, r) \<in> set (new_calls w (snd (POST e rq w))). isl (generate (env_JSON_parse e) g r))"
    using n(2) nc by (simp add: fan_start_def)
qed

lemma fan_start_generated: "generated e (length (gen_calls w)) (fan_start w)"
  by (simp add: generated_def fan_start_def)

text \<open>
  Claim C3. The intent is parsed without a need for clarification and the user's message
  is stored. If round \<open>a\<close> of the loop over the requested channels ends in its \<^verbatim>\<open>catch\<close>
  block and round \<open>b\<close> runs its \<^verbatim>\<open>try\<close> block to the end, the request succeeds: the
  response is the campaign response, its content has the keys of channel \<open>b\<close>, every
  content in it is the result of a generator call of this request made for its key, its
  warnings name channel \<open>a\<close>, and one campaign with this content and status \<^verbatim>\<open>ready\<close>
  is added to the table.
\<close>

theorem channel_isolation:
  assumes "parseCampaignIntent (env_decode e) (env_parse_reply e) = Inr intent"
    and "\<not> needsClarification intent"
    and "append_user_message rq w = Inr (cid, w1)"
    and "a < length (channels intent)" and "b < length (channels intent)"
    and "round_error e (channels intent) (fan_start w1) a \<noteq> None"
    and "round_error e (channels intent) (fan_start w1) b = None"
  shows "\<exists>content warnings w'.
      POST e rq w =
        (CampaignResponse intent content (length (campaigns w)) cid (ready_message intent) warnings, w')
      \<and> set (content_keys (channels intent ! b)) \<subseteq> fst ` set content
      \<and> (\<forall>(k, v) \<in> set content.
            \<exists>(g, r) \<in> set (new_calls w w'). gen_key g = k \<and> generate (env_JSON_parse e) g r = Inr v)
      \<and> channel_warning (channels intent ! a) \<in> set warnings
      \<and> campaigns w' = campaigns w @ [new_campaign (req_user rq) intent content]
      \<and> camp_status (new_campaign (req_user rq) intent content) = ''ready''"
proof -
  let ?s = "fanout e (channels intent) (fan_start w1)"
  have keys: "set (content_keys (channels intent ! b)) \<subseteq> fst ` set (generatedContent ?s)"
    using assms(5,7) by (rule fanout_round_keys)
  have "content_keys (channels intent ! b) \<noteq> []"
    by (cases "channels intent ! b") auto
  with keys have ne: "generatedContent ?s \<noteq> []"
    by (cases "content_keys (channels intent ! b)") auto
  have warn: "channel_warning (channels intent ! a) \<in> set (contentErrors ?s)"
    using assms(4,6) by (rule fanout_round_warning)
  have "generated e (length (gen_calls w1)) ?s"
    using fan_start_generated by (rule fanout_generated)
  then have gen: "\<forall>(k, v) \<in> set (generatedContent ?s).
      \<exists>(g, r) \<in> set (drop (length (gen_calls w)) (calls ?s)).
        gen_key g = k \<and> generate (env_JSON_parse e) g r = Inr v"
    using append_user_message_keeps(2) [OF assms(3)] by (simp add: generated_def)
  obtain w' where w': "w' = snd (POST e rq w)" by simp
  have post: "POST e rq w =
      (CampaignResponse intent (generatedContent ?s) (length (campaigns w)) cid (ready_message intent)
         (contentErrors ?s), w')"
    and calls: "gen_calls w' = calls ?s"
    and camps: "campaigns w' = campaigns w @ [new_campaign (req_user rq) intent (generatedContent ?s)]"
    using POST_generation [OF assms(1-3)] ne w' by (simp_all add: Let_def)
  have st: "camp_status (new_campaign (req_user rq) intent (generatedContent ?s)) = ''ready''"
    by (simp add: new_campaign_def)
  from gen calls have gen': "\<forall>(k, v) \<in> set (generatedContent ?s).
      \<exists>(g, r) \<in> set (new_calls w w'). gen_key g = k \<and> generate (env_JSON_parse e) g r = Inr v"
    by (simp add: new_calls_def)
  from post keys gen' warn camps st show ?thesis by blast
qed

text \<open>
  Claim C4. The intent is parsed without a need for clarification and the user's message
  is stored. If every generator call the request makes throws, which is the case exactly
  when the aggregated content is empty (lemma \<open>POST_new_calls\<close>), the response is the
  error \<^verbatim>\<open>Failed to generate content for any channel\<close> with status 500 and the table
  of campaigns is unchanged.
\<close>

theorem total_failure_escalation:
  assumes "parseCampaignIntent (env_decode e) (env_parse_reply e) = Inr intent"
    and "\<not> needsClarification intent"
    and "append_user_message rq w = Inr (cid, w1)"
    and "\<forall>(g, r) \<in> set (new_calls w (snd (POST e rq w))). isl (generate (env_JSON_parse e) g r)"
  shows "(\<exists>warnings. fst (POST e rq w) =
            ErrorResponse ''Failed to generate content for any channel'' 500 warnings)
      \<and> campaigns (snd (POST e rq w)) = campaigns w"
proof -
  let ?s = "fanout e (channels intent) (fan_start w1)"
  have "generatedContent ?s = []"
    using POST_new_calls(2) [OF assms(1-3)] assms(4) by blast
  then show ?thesis
    using POST_generation [OF assms(1-3)] append_user_message_keeps(1) [OF assms(3)]
    by (simp add: Let_def)
qed

text \<open>
  Claim C5, as amended. The round of the loop for \<^verbatim>\<open>social\<close> calls the generator for
  facebook first. If that call throws, instagram is not attempted, nothing is stored and
  one warning for \<^verbatim>\<open>social\<close> is recorded. If it succeeds its content is stored under
  \<^verbatim>\<open>facebook\<close> and the generator is called for instagram: a failure there records the
  one warning and keeps the facebook content, a success stores the content under
  \<^verbatim>\<open>instagram\<close>. In every case the loop goes on with the remaining channels.
\<close>

theorem social_round:
  "fanout e (Social # chs) s =
     (let r0 = env_gen_reply e (length (calls s));
          r1 = env_gen_reply e (Suc (length (calls s)))
      in case generate (env_JSON_parse e) (GenSocial Facebook) r0 of
           Inl x \<Rightarrow>
             fanout e chs
               (s\<lparr>calls := calls s @ [(GenSocial Facebook, r0)],
                  contentErrors := contentErrors s @ [''Failed to generate social content'']\<rparr>)
         | Inr fb \<Rightarrow>
             (case generate (env_JSON_parse e) (GenSocial Instagram) r1 of
                Inl x \<Rightarrow>
                  fanout e chs
                    (s\<lparr>generatedContent := AList.update ''facebook'' fb (generatedContent s),
                       calls := calls s @ [(GenSocial Facebook, r0), (GenSocial Instagram, r1)],
                       contentErrors := contentErrors s @ [''Failed to generate social content'']\<rparr>)
              | Inr ig \<Rightarrow>
                  fanout e chs
                    (s\<lparr>calls := calls s @ [(GenSocial Facebook, r0), (GenSocial Instagram, r1)],
                       generatedContent :=
                         AList.update ''instagram'' ig (AList.update ''facebook'' fb (generatedContent s))\<rparr>)))"
  by (simp add: fan_defs channel_warning_def split: sum.splits)

subsection \<open>The example inputs\<close>

lemma z_array_channel_names:
  "z_array z_enum_channel (JArr (map (\<lambda>c. JStr (channel_name c)) chs)) = Some chs"
proof -
  have "all_valid (map z_enum_channel (map (\<lambda>c. JStr (channel_name c)) chs)) = Some chs"
  proof (induction chs)
    case Nil
    then show ?case by simp
  next
    case (Cons c chs)
    then show ?case by (cases c) simp_all
  qed
  then show ?thesis by simp
qed

lemma example_parses:
  "parseCampaignIntent (env_decode (example_env chs rs)) (env_parse_reply (example_env chs rs))
     = Inr (example_intent chs)"
  by (simp add: parseCampaignIntent_def example_env_def example_intent_json_def
      example_intent_def z_array_channel_names del: z_array.simps)

lemma example_append:
  "append_user_message example_request empty_world = Inr (0, example_started)"
  by (simp add: append_user_message_def example_request_def empty_world_def example_started_def)

lemma good_reply_extracted: "extract_json example_parse (LLMReply good_reply) = Inr good_object"
  by (simp add: extract_json_def json_match_def example_parse_def good_reply_def)

lemma good_reply_generates:
  "generateEmailContent example_parse (LLMReply good_reply) = Inr good_object"
  "generatePPCContent example_parse (LLMReply good_reply) = Inr good_object"
  "generateSMSContent example_parse (LLMReply good_reply) = Inr good_object"
  "generateSocialContent example_parse pf (LLMReply good_reply)
     = Inr (JObj [(''body'', JStr ''B''), (''description'', JStr [])])"
  by (simp_all add: gen_defs good_reply_extracted)
     (simp_all add: good_object_def hashtags_description_def social_object_def)

lemma throw_fails:
  "generateEmailContent jp (LLMThrows m) = Inl (Error ''Failed to generate email content. Please try again.'')"
  "generatePPCContent jp (LLMThrows m) = Inl (Error ''Failed to generate PPC content. Please try again.'')"
  "generateSMSContent jp (LLMThrows m) = Inl (Error ''Failed to generate SMS content. Please try again.'')"
  "generateSocialContent jp pf (LLMThrows m) = Inl (Error ''Failed to generate social content. Please try again.'')"
  by (simp_all add: gen_defs extract_json_def)

text \<open>
  Claim C3 at the channels email and SMS, where the model throws at the first call and
  answers the second.
\<close>

theorem channel_isolation_witness:
  "round_error (example_env [Email, Sms] (\<lambda>n. if n = 0 then LLMThrows ''network error'' else LLMReply good_reply))
      [Email, Sms]
      (fan_start example_started) 0 \<noteq> None
   \<and> round_error (example_env [Email, Sms] (\<lambda>n. if n = 0 then LLMThrows ''network error'' else LLMReply good_reply))
      [Email, Sms]
      (fan_start example_started) 1 = None
   \<and> (\<exists>content warnings w'.
        POST (example_env [Email, Sms] (\<lambda>n. if n = 0 then LLMThrows ''network error'' else LLMReply good_reply))
          example_request empty_world
          = (CampaignResponse (example_intent [Email, Sms]) content 0 0
               (ready_message (example_intent [Email, Sms])) warnings, w')
        \<and> ''sms'' \<in> fst ` set content
        \<and> ''Failed to generate email content'' \<in> set warnings
        \<and> campaigns w' = [new_campaign ''u1'' (example_intent [Email, Sms]) content])"
proof -
  let ?e = "example_env [Email, Sms] (\<lambda>n. if n = 0 then LLMThrows ''network error'' else LLMReply good_reply)"
  let ?w1 = "example_started"
  let ?i = "example_intent [Email, Sms]"
  have nc: "\<not> needsClarification ?i" and ch: "channels ?i = [Email, Sms]"
    by (simp_all add: example_intent_def)
  have a: "round_error ?e [Email, Sms] (fan_start ?w1) 0 \<noteq> None"
    by (simp add: round_error_def fan_defs fan_start_def example_env_def empty_world_def example_started_def throw_fails)
  have b: "round_error ?e [Email, Sms] (fan_start ?w1) 1 = None"
    by (simp add: round_error_def fan_defs fan_start_def example_env_def empty_world_def example_started_def throw_fails
        good_reply_generates)
  from channel_isolation [OF example_parses [of "[Email, Sms]" "\<lambda>n. if n = 0 then LLMThrows ''network error'' else LLMReply good_reply"] nc example_append, of 0 1] a b ch
  obtain content warnings w' where
    "POST ?e example_request empty_world
       = (CampaignResponse ?i content (length (campaigns empty_world)) 0 (ready_message ?i) warnings, w')"
    "set (content_keys ([Email, Sms] ! 1)) \<subseteq> fst ` set content"
    "channel_warning ([Email, Sms] ! 0) \<in> set warnings"
    "campaigns w' = campaigns empty_world @ [new_campaign (req_user example_request) ?i content]"
    by auto
  then have "POST ?e example_request empty_world
          = (CampaignResponse ?i content 0 0 (ready_message ?i) warnings, w')
        \<and> ''sms'' \<in> fst ` set content
        \<and> ''Failed to generate email content'' \<in> set warnings
        \<and> campaigns w' = [new_campaign ''u1'' ?i content]"
    by (simp add: empty_world_def example_request_def channel_warning_def)
  then have "\<exists>content warnings w'.
        POST ?e example_request empty_world
          = (CampaignResponse ?i content 0 0 (ready_message ?i) warnings, w')
        \<and> ''sms'' \<in> fst ` set content
        \<and> ''Failed to generate email content'' \<in> set warnings
        \<and> campaigns w' = [new_campaign ''u1'' ?i content]"
    by blast
  with a b show ?thesis by simp
qed

text \<open>Claim C4 at the channels email and social with a model that always throws.\<close>

theorem total_failure_escalation_witness:
  "fst (POST (example_env [Email, Social] (\<lambda>n. LLMThrows ''network error'')) example_request empty_world)
       = ErrorResponse ''Failed to generate content for any channel'' 500
           [''Failed to generate email content'', ''Failed to generate social content'']
   \<and> campaigns (snd (POST (example_env [Email, Social] (\<lambda>n. LLMThrows ''network error''))
        example_request empty_world)) = []"
proof -
  let ?e = "example_env [Email, Social] (\<lambda>n. LLMThrows ''network error'')"
  let ?i = "example_intent [Email, Social]"
  have nc: "\<not> needsClarification ?i" and ch: "channels ?i = [Email, Social]"
    by (simp_all add: example_intent_def)
  have p: "POST ?e example_request empty_world =
     (ErrorResponse ''Failed to generate content for any channel'' 500
        [''Failed to generate email content'', ''Failed to generate social content''],
      example_started\<lparr>gen_calls := [(GenEmail, LLMThrows ''network error''),
                       (GenSocial Facebook, LLMThrows ''network error'')]\<rparr>)"
    using POST_generation [OF example_parses [of "[Email, Social]" "\<lambda>n. LLMThrows ''network error''"] nc example_append]
    by (simp add: ch fan_defs fan_start_def channel_warning_def example_env_def empty_world_def example_started_def throw_fails)
  have h: "\<forall>(g, r) \<in> set (new_calls empty_world (snd (POST ?e example_request empty_world))).
        isl (generate (env_JSON_parse ?e) g r)"
    unfolding p by (simp add: new_calls_def empty_world_def example_env_def throw_fails)
  from total_failure_escalation [OF example_parses [of "[Email, Social]" "\<lambda>n. LLMThrows ''network error''"] nc example_append h]
  have "campaigns (snd (POST ?e example_request empty_world)) = campaigns empty_world"
    by blast
  then have "campaigns (snd (POST ?e example_request empty_world)) = []"
    by (simp add: empty_world_def)
  with p show ?thesis by simp
qed

text \<open>
  Claim C5 as stated fails: when the call for facebook throws, the generator is never
  called for instagram, although the model's next reply would have given content; the
  request ends in the error for a total failure.
\<close>

theorem social_facebook_failure_counterexample:
  "POST (example_env [Social] (\<lambda>n. if n = 0 then LLMThrows ''network error'' else LLMReply good_reply))
     example_request empty_world
   = (ErrorResponse ''Failed to generate content for any channel'' 500
        [''Failed to generate social content''],
      example_started\<lparr>gen_calls := [(GenSocial Facebook, LLMThrows ''network error'')]\<rparr>)
   \<and> generate example_parse (GenSocial Instagram) (LLMReply good_reply)
       = Inr (JObj [(''body'', JStr ''B''), (''description'', JStr [])])"
proof -
  let ?e = "example_env [Social] (\<lambda>n. if n = 0 then LLMThrows ''network error'' else LLMReply good_reply)"
  let ?i = "example_intent [Social]"
  have nc: "\<not> needsClarification ?i" and ch: "channels ?i = [Social]"
    by (simp_all add: example_intent_def)
  have "POST ?e example_request empty_world =
     (ErrorResponse ''Failed to generate content for any channel'' 500
        [''Failed to generate social content''],
      example_started\<lparr>gen_calls := [(GenSocial Facebook, LLMThrows ''network error'')]\<rparr>)"
    using POST_generation [OF example_parses [of "[Social]" "\<lambda>n. if n = 0 then LLMThrows ''network error'' else LLMReply good_reply"] nc example_append]
    by (simp add: ch fan_defs fan_start_def channel_warning_def example_env_def empty_world_def example_started_def throw_fails)
  then show ?thesis
    by (simp add: good_reply_generates)
qed

subsection \<open>The conversation\<close>

text \<open>
  What an update with \<^verbatim>\<open>push\<close> leaves in the column of its conversation: the object with
  the key \<^verbatim>\<open>push\<close>, whatever the column held before.
\<close>

lemma update_messages_push_stored:
  "cid < length cs \<Longrightarrow>
     conv_messages (update_messages_push cid m cs ! cid) = JObj [(''push'', JArr [message_json m])]"
  by (simp add: update_messages_push_def)

lemma append_user_message_writes:
  assumes "append_user_message rq w = Inr (cid, w1)"
  shows "conv_writes w1 = conv_writes w @ [(cid, user_message (req_prompt rq))]"
  using assms
  by (auto simp: append_user_message_def split: option.splits if_splits)

lemma POST_parse_failure:
  assumes "parseCampaignIntent (env_decode e) (env_parse_reply e) = Inl x"
  shows "POST e rq w = (handleApiError x, w)"
  using assms by (simp add: POST_def)

lemma POST_conversation_missing:
  assumes "parseCampaignIntent (env_decode e) (env_parse_reply e) = Inr intent"
    and "append_user_message rq w = Inl x"
  shows "POST e rq w = (handleApiError x, w)"
  using assms by (simp add: POST_def)

lemma POST_writes:
  assumes "parseCampaignIntent (env_decode e) (env_parse_reply e) = Inr intent"
    and "append_user_message rq w = Inr (cid, w1)"
  shows "conv_writes (snd (POST e rq w))
     = conv_writes w @ (cid, user_message (req_prompt rq))
         # map (Pair cid) (assistant_reply (fst (POST e rq w)))"
proof (cases "needsClarification intent")
  case True
  then show ?thesis
    using assms append_user_message_writes [OF assms(2)]
    by (simp add: POST_def Let_def)
next
  case False
  let ?s = "fanout e (channels intent) (fan_start w1)"
  show ?thesis
  proof (cases "generatedContent ?s = []")
    case True
    then show ?thesis
      using POST_generation [OF assms(1) False assms(2)] append_user_message_writes [OF assms(2)]
      by (simp add: Let_def)
  next
    case ne: False
    then show ?thesis
      using POST_generation [OF assms(1) False assms(2)] append_user_message_writes [OF assms(2)]
      by (simp add: Let_def)
  qed
qed

text \<open>
  Claim C8, as amended. The intent is parsed first. A request whose parsing fails, or
  whose conversation is not found, leaves every table as it was and hands no message to
  the conversation table. Otherwise the request hands to the conversation table, for its
  conversation, first the user's raw prompt and then the assistant's message when the
  response is a clarification or a finished campaign, and nothing more when every
  generation failed. So the assistant's message is always handed over after the user
  message of its own request.
\<close>

theorem conversation_order:
  "(parseCampaignIntent (env_decode e) (env_parse_reply e) = Inl x \<longrightarrow> snd (POST e rq w) = w)
   \<and> (parseCampaignIntent (env_decode e) (env_parse_reply e) = Inr intent
        \<and> append_user_message rq w = Inl y
      \<longrightarrow> snd (POST e rq w) = w)
   \<and> (parseCampaignIntent (env_decode e) (env_parse_reply e) = Inr intent
        \<and> append_user_message rq w = Inr (cid, w1)
      \<longrightarrow> conv_writes (snd (POST e rq w))
            = conv_writes w @ (cid, user_message (req_prompt rq))
                # map (Pair cid) (assistant_reply (fst (POST e rq w))))"
  using POST_parse_failure [of e x rq w] POST_conversation_missing [of e intent rq w y]
    POST_writes [of e intent rq w cid w1]
  by simp

text \<open>
  Claim C8 as stated fails: when the parser's model throws, the request ends with no
  conversation stored and no message handed over, so the prompt was not appended before
  parsing.
\<close>

theorem parse_failure_keeps_conversation_counterexample:
  "POST (example_env [Email] (\<lambda>n. LLMReply good_reply)\<lparr>env_parse_reply := LLMThrows ''timeout''\<rparr>)
     example_request empty_world
   = (ErrorResponse ''timeout'' 500 [], empty_world)
   \<and> conversations empty_world = [] \<and> conv_writes empty_world = []"
  by (simp add: POST_def parseCampaignIntent_def example_env_def empty_world_def)

text \<open>
  Claim C8, as amended, at a parser that throws, at an unknown conversation, and at a
  first request that ends with a finished campaign.
\<close>

theorem conversation_order_witness:
  "snd (POST (example_env [Email] (\<lambda>n. LLMReply good_reply)\<lparr>env_parse_reply := LLMThrows ''timeout''\<rparr>)
          example_request empty_world) = empty_world
   \<and> snd (POST (example_env [Email] (\<lambda>n. LLMReply good_reply))
          (example_request\<lparr>req_conversationId := Some 7\<rparr>) empty_world) = empty_world
   \<and> conv_writes (snd (POST (example_env [Email] (\<lambda>n. LLMReply good_reply)) example_request empty_world))
     = [(0, user_message ''Promote the new feature''),
        (0, assistant_message (ready_message (example_intent [Email])) (Some 0))]"
proof -
  let ?e = "example_env [Email] (\<lambda>n. LLMReply good_reply)"
  let ?f = "?e\<lparr>env_parse_reply := LLMThrows ''timeout''\<rparr>"
  have pf: "parseCampaignIntent (env_decode ?f) (env_parse_reply ?f) = Inl (Error ''timeout'')"
    by (simp add: parseCampaignIntent_def)
  have a: "snd (POST ?f example_request empty_world) = empty_world"
    using conversation_order [of ?f "Error ''timeout''" example_request empty_world] pf by blast
  let ?rq = "example_request\<lparr>req_conversationId := Some 7\<rparr>"
  have miss: "append_user_message ?rq empty_world = Inl (Error ''Record to update not found.'')"
    by (simp add: append_user_message_def example_request_def empty_world_def)
  have m: "snd (POST ?e ?rq empty_world) = empty_world"
    using conversation_order [of ?e undefined ?rq empty_world "example_intent [Email]"
        "Error ''Record to update not found.''"]
      example_parses [of "[Email]" "\<lambda>n. LLMReply good_reply"] miss
    by blast
  have nc: "\<not> needsClarification (example_intent [Email])" and ch: "channels (example_intent [Email]) = [Email]"
    by (simp_all add: example_intent_def)
  have r: "fst (POST ?e example_request empty_world)
      = CampaignResponse (example_intent [Email]) [(''email'', good_object)] 0 0
          (ready_message (example_intent [Email])) []"
    using POST_generation [OF example_parses [of "[Email]" "\<lambda>n. LLMReply good_reply"] nc example_append]
    by (simp add: ch fan_defs fan_start_def example_env_def empty_world_def example_started_def
        good_reply_generates)
  have "conv_writes (snd (POST ?e example_request empty_world))
      = conv_writes empty_world @ (0, user_message (req_prompt example_request))
          # map (Pair 0) (assistant_reply (fst (POST ?e example_request empty_world)))"
    using conversation_order [of ?e undefined example_request empty_world "example_intent [Email]"
        undefined 0 example_started]
      example_parses [of "[Email]" "\<lambda>n. LLMReply good_reply"] example_append
    by blast
  then have b: "conv_writes (snd (POST ?e example_request empty_world))
     = [(0, user_message ''Promote the new feature''),
        (0, assistant_message (ready_message (example_intent [Email])) (Some 0))]"
    unfolding r by (simp add: empty_world_def example_request_def)
  from a m b show ?thesis by simp
qed

section \<open>Claims about the life of a campaign\<close>

text \<open>
  The campaign route stores a campaign exactly when one of the generator calls of the
  request succeeded, and stores it with status \<^verbatim>\<open>ready\<close>.
\<close>

lemma POST_campaign_created:
  "(if \<exists>(g, r) \<in> set (new_calls w (snd (POST e rq w))). \<not> isl (generate (env_JSON_parse e) g r)
    then \<exists>c. campaigns (snd (POST e rq w)) = campaigns w @ [c] \<and> camp_status c = ''ready''
    else campaigns (snd (POST e rq w)) = campaigns w)"
proof -
  let ?some = "\<exists>(g, r) \<in> set (new_calls w (snd (POST e rq w))). \<not> isl (generate (env_JSON_parse e) g r)"
  have untouched: ?thesis
    if "gen_calls (snd (POST e rq w)) = gen_calls w" and c: "campaigns (snd (POST e rq w)) = campaigns w"
  proof -
    from that(1) have "new_calls w (snd (POST e rq w)) = []"
      by (simp add: new_calls_def)
    then have "\<not> ?some" by simp
    then show ?thesis
      unfolding if_not_P [OF \<open>\<not> ?some\<close>] using c by simp
  qed
  show ?thesis
  proof (cases "parseCampaignIntent (env_decode e) (env_parse_reply e)")
    case (Inl x)
    then have "snd (POST e rq w) = w"
      by (simp add: POST_parse_failure)
    then show ?thesis
      by (intro untouched) simp_all
  next
    case (Inr intent)
    show ?thesis
    proof (cases "append_user_message rq w")
      case (Inl y)
      then have "snd (POST e rq w) = w"
        using Inr by (simp add: POST_conversation_missing)
      then show ?thesis
        by (intro untouched) simp_all
    next
      case a: (Inr p)
      obtain cid w1 where p: "p = (cid, w1)" by (cases p)
      note a' = a [unfolded p]
      show ?thesis
      proof (cases "needsClarification intent")
        case True
        show ?thesis
          using clarification_short_circuit(2,3) [OF Inr True a']
          by (intro untouched)
      next
        case False
        let ?s = "fanout e (channels intent) (fan_start w1)"
        note n = POST_new_calls(2) [OF Inr False a']
        show ?thesis
        proof (cases "generatedContent ?s = []")
          case True
          with n have "\<not> ?some" by blast
          moreover have "campaigns (snd (POST e rq w)) = campaigns w"
            using True POST_generation [OF Inr False a'] append_user_message_keeps(1) [OF a']
            by (simp add: Let_def)
          ultimately show ?thesis
            by (simp only: if_False)
        next
          case ne: False
          with n have some: ?some by blast
          have "campaigns (snd (POST e rq w))
              = campaigns w @ [new_campaign (req_user rq) intent (generatedContent ?s)]"
            using ne POST_generation [OF Inr False a'] by (simp add: Let_def)
          moreover have "camp_status (new_campaign (req_user rq) intent (generatedContent ?s)) = ''ready''"
            by (simp add: new_campaign_def)
          ultimately have "\<exists>c. campaigns (snd (POST e rq w)) = campaigns w @ [c] \<and> camp_status c = ''ready''"
            by blast
          then show ?thesis
            unfolding if_P [OF some] .
        qed
      qed
    qed
  qed
qed

lemma launch_loop_length: "length (launch_loop e integs c i chs) = length chs"
  by (induction chs arbitrary: i) auto

lemma successCount_zero: "successCount rs = 0 \<longleftrightarrow> (\<forall>r \<in> set rs. \<not> launched_ok r)"
  by (auto simp: successCount_def filter_empty_conv)

lemma successCount_all: "successCount rs = length rs \<longleftrightarrow> (\<forall>r \<in> set rs. launched_ok r)"
proof
  assume a: "successCount rs = length rs"
  show "\<forall>r \<in> set rs. launched_ok r"
  proof (rule ccontr)
    assume "\<not> (\<forall>r \<in> set rs. launched_ok r)"
    then obtain r where "r \<in> set rs" "\<not> launched_ok r" by blast
    then have "length (filter launched_ok rs) < length rs"
      by (rule length_filter_less)
    with a show False by (simp add: successCount_def)
  qed
next
  assume "\<forall>r \<in> set rs. launched_ok r"
  then show "successCount rs = length rs"
    by (simp add: successCount_def)
qed

text \<open>
  The launch handler for a campaign of the requesting user: it fails without writing when
  the campaign is already launched or no channel launches, and otherwise stores the
  results and the new status.
\<close>

lemma launch_POST_cases:
  assumes "lreq_campaignId rq < length (campaigns w)"
    and "camp_userId (campaigns w ! lreq_campaignId rq) = lreq_user rq"
  shows "launch_POST e rq w =
     (let c = campaigns w ! lreq_campaignId rq;
          chs = channelsToLaunch rq c;
          rs = launch_loop e (connected_integrations w (lreq_user rq)) c 0 chs
      in if camp_status c = ''launched'' \<or> (\<forall>r \<in> set rs. \<not> launched_ok r)
         then (Inl (Error ''body is not defined''), w)
         else (Inr \<lparr>lres_campaign =
                      c\<lparr>camp_status := (if \<forall>r \<in> set rs. launched_ok r then ''launched''
                                         else ''partially_launched''),
                        camp_launchResults := Some rs\<rparr>,
                    lres_launchResults = rs, lres_successCount = successCount rs,
                    lres_totalChannels = length chs\<rparr>,
               w\<lparr>campaigns := (campaigns w)[lreq_campaignId rq :=
                     c\<lparr>camp_status := (if \<forall>r \<in> set rs. launched_ok r then ''launched''
                                        else ''partially_launched''),
                       camp_launchResults := Some rs\<rparr>]\<rparr>))"
proof -
  let ?c = "campaigns w ! lreq_campaignId rq"
  let ?chs = "channelsToLaunch rq ?c"
  let ?rs = "launch_loop e (connected_integrations w (lreq_user rq)) ?c 0 ?chs"
  have z: "successCount ?rs = 0 \<longleftrightarrow> (\<forall>r \<in> set ?rs. \<not> launched_ok r)"
    by (rule successCount_zero)
  have "successCount ?rs = length ?rs \<longleftrightarrow> (\<forall>r \<in> set ?rs. launched_ok r)"
    by (rule successCount_all)
  then have a: "successCount ?rs = length ?chs \<longleftrightarrow> (\<forall>r \<in> set ?rs. launched_ok r)"
    by (simp add: launch_loop_length)
  show ?thesis
    using assms
    unfolding launch_POST_def launch_block_def Let_def z a
    by simp
qed

lemma launch_POST_not_found:
  assumes "\<not> (lreq_campaignId rq < length (campaigns w)
             \<and> camp_userId (campaigns w ! lreq_campaignId rq) = lreq_user rq)"
  shows "launch_POST e rq w = (Inl (Error ''body is not defined''), w)"
  using assms by (simp add: launch_POST_def launch_block_def Let_def)

lemma PATCH_status:
  assumes "updateCampaignSchema_ok u" and "k < length (campaigns w)"
    and "camp_userId (campaigns w ! k) = user"
  shows "camp_status (campaigns (snd (PATCH user k u w)) ! k)
     = (case upd_status u of None \<Rightarrow> camp_status (campaigns w ! k) | Some st \<Rightarrow> st)"
  using assms by (simp add: PATCH_def Let_def apply_updates_def or_keep_def split: option.splits)

text \<open>
  Claim C9, as amended. A campaign is created, in status \<^verbatim>\<open>ready\<close>, exactly when at
  least one generator call of the request succeeded. A launch of a campaign of the
  requesting user that is not yet \<^verbatim>\<open>launched\<close> sets the status to \<^verbatim>\<open>launched\<close> when
  every channel of the launch succeeded and to \<^verbatim>\<open>partially_launched\<close> when only some
  did; when none did, and when the campaign is already \<^verbatim>\<open>launched\<close>, the handler ends
  with an error and the tables are unchanged. An accepted \<^verbatim>\<open>PATCH\<close> request with a
  status sets that status, whatever the status was.
\<close>

theorem campaign_lifecycle:
  "(if \<exists>(g, r) \<in> set (new_calls w (snd (POST e rq w))). \<not> isl (generate (env_JSON_parse e) g r)
    then \<exists>c. campaigns (snd (POST e rq w)) = campaigns w @ [c] \<and> camp_status c = ''ready''
    else campaigns (snd (POST e rq w)) = campaigns w)
   \<and> (lreq_campaignId lr < length (campaigns v)
        \<and> camp_userId (campaigns v ! lreq_campaignId lr) = lreq_user lr
      \<longrightarrow> (let c = campaigns v ! lreq_campaignId lr;
                rs = launch_loop f (connected_integrations v (lreq_user lr)) c 0 (channelsToLaunch lr c)
            in if camp_status c = ''launched'' \<or> (\<forall>r \<in> set rs. \<not> launched_ok r)
               then launch_POST f lr v = (Inl (Error ''body is not defined''), v)
               else \<exists>res. launch_POST f lr v
                       = (Inr res, v\<lparr>campaigns := (campaigns v)[lreq_campaignId lr := lres_campaign res]\<rparr>)
                     \<and> lres_launchResults res = rs
                     \<and> camp_status (lres_campaign res)
                         = (if \<forall>r \<in> set rs. launched_ok r then ''launched''
                            else ''partially_launched'')))
   \<and> (updateCampaignSchema_ok u \<and> k < length (campaigns x) \<and> camp_userId (campaigns x ! k) = user
      \<longrightarrow> camp_status (campaigns (snd (PATCH user k u x)) ! k)
            = (case upd_status u of None \<Rightarrow> camp_status (campaigns x ! k) | Some st \<Rightarrow> st))"
proof (intro conjI impI)
  show "if \<exists>(g, r) \<in> set (new_calls w (snd (POST e rq w))). \<not> isl (generate (env_JSON_parse e) g r)
    then \<exists>c. campaigns (snd (POST e rq w)) = campaigns w @ [c] \<and> camp_status c = ''ready''
    else campaigns (snd (POST e rq w)) = campaigns w"
    by (rule POST_campaign_created)
next
  assume a: "lreq_campaignId lr < length (campaigns v)
        \<and> camp_userId (campaigns v ! lreq_campaignId lr) = lreq_user lr"
  show "let c = campaigns v ! lreq_campaignId lr;
            rs = launch_loop f (connected_integrations v (lreq_user lr)) c 0 (channelsToLaunch lr c)
        in if camp_status c = ''launched'' \<or> (\<forall>r \<in> set rs. \<not> launched_ok r)
           then launch_POST f lr v = (Inl (Error ''body is not defined''), v)
           else \<exists>res. launch_POST f lr v
                   = (Inr res, v\<lparr>campaigns := (campaigns v)[lreq_campaignId lr := lres_campaign res]\<rparr>)
                 \<and> lres_launchResults res = rs
                 \<and> camp_status (lres_campaign res)
                     = (if \<forall>r \<in> set rs. launched_ok r then ''launched''
                        else ''partially_launched'')"
    unfolding launch_POST_cases [of lr v f, OF conjunct1 [OF a] conjunct2 [OF a]] Let_def
    by simp
next
  assume "updateCampaignSchema_ok u \<and> k < length (campaigns x) \<and> camp_userId (campaigns x ! k) = user"
  then show "camp_status (campaigns (snd (PATCH user k u x)) ! k)
            = (case upd_status u of None \<Rightarrow> camp_status (campaigns x ! k) | Some st \<Rightarrow> st)"
    by (simp add: PATCH_status)
qed

text \<open>
  Claim C9 as stated fails: a \<^verbatim>\<open>PATCH\<close> request with status \<^verbatim>\<open>ready\<close> takes a
  launched campaign back to \<^verbatim>\<open>ready\<close>.
\<close>

theorem patch_reverts_launched_counterexample:
  "camp_status (campaigns (launch_world ''launched'') ! 0) = ''launched''
   \<and> camp_status (campaigns (snd (PATCH ''u1'' 0 (status_update ''ready'') (launch_world ''launched''))) ! 0)
       = ''ready''"
  by (simp add: PATCH_def updateCampaignSchema_ok_def status_update_def launch_world_def
      example_campaign_def apply_updates_def or_keep_def Let_def)

text \<open>
  Claim C9, as amended, at a first request that ends with a campaign, at launches of the
  example campaign on both its channels, on email alone, on social alone and after it was
  launched, and at a \<^verbatim>\<open>PATCH\<close> request that pauses it.
\<close>

theorem campaign_lifecycle_witness:
  "(\<exists>c. campaigns (snd (POST (example_env [Email] (\<lambda>n. LLMReply good_reply)) example_request empty_world)) = [c]
        \<and> camp_status c = ''ready'')
   \<and> camp_status (campaigns (snd (launch_POST (example_env [] (\<lambda>n. LLMReply good_reply))
          (launch_of None) (launch_world ''ready''))) ! 0) = ''partially_launched''
   \<and> camp_status (campaigns (snd (launch_POST (example_env [] (\<lambda>n. LLMReply good_reply))
          (launch_of (Some [Email])) (launch_world ''ready''))) ! 0) = ''launched''
   \<and> launch_POST (example_env [] (\<lambda>n. LLMReply good_reply)) (launch_of (Some [Social])) (launch_world ''ready'')
       = (Inl (Error ''body is not defined''), launch_world ''ready'')
   \<and> launch_POST (example_env [] (\<lambda>n. LLMReply good_reply)) (launch_of None) (launch_world ''launched'')
       = (Inl (Error ''body is not defined''), launch_world ''launched'')
   \<and> camp_status (campaigns (snd (PATCH ''u1'' 0 (status_update ''paused'') (launch_world ''ready''))) ! 0)
       = ''paused''"
proof -
  let ?e = "example_env [Email] (\<lambda>n. LLMReply good_reply)"
  let ?f = "example_env [] (\<lambda>n. LLMReply good_reply)"
  let ?u = "status_update ''paused''"
  let ?v = "launch_world ''ready''"
  have nc: "\<not> needsClarification (example_intent [Email])" and ch: "channels (example_intent [Email]) = [Email]"
    by (simp_all add: example_intent_def)
  have g: "gen_calls (snd (POST ?e example_request empty_world)) = [(GenEmail, LLMReply good_reply)]"
    using POST_generation [OF example_parses [of "[Email]" "\<lambda>n. LLMReply good_reply"] nc example_append]
    by (simp add: ch fan_defs fan_start_def example_env_def empty_world_def example_started_def good_reply_generates)
  have some: "\<exists>(g, r) \<in> set (new_calls empty_world (snd (POST ?e example_request empty_world))).
      \<not> isl (generate (env_JSON_parse ?e) g r)"
    unfolding g new_calls_def
    by (simp add: empty_world_def example_env_def good_reply_generates)
  have own: "lreq_campaignId (launch_of chs) < length (campaigns (launch_world st))
      \<and> camp_userId (campaigns (launch_world st) ! lreq_campaignId (launch_of chs)) = lreq_user (launch_of chs)"
    for chs st
    by (simp add: launch_of_def launch_world_def example_campaign_def)
  have ok: "updateCampaignSchema_ok ?u \<and> 0 < length (campaigns ?v) \<and> camp_userId (campaigns ?v ! 0) = ''u1''"
    by (simp add: updateCampaignSchema_ok_def status_update_def launch_world_def example_campaign_def)
  have c0: "campaigns (launch_world st) = [example_campaign st]"
    and u0: "lreq_user (launch_of chs) = ''u1''" and i0: "lreq_campaignId (launch_of chs) = 0"
    for st chs
    by (simp_all add: launch_of_def launch_world_def)
  have chs: "channelsToLaunch (launch_of None) (example_campaign st) = [Email, Social]"
    "channelsToLaunch (launch_of (Some cs)) (example_campaign st) = cs" for st cs
    by (simp_all add: channelsToLaunch_def launch_of_def example_campaign_def)
  have loops: "launch_channel ?f (connected_integrations (launch_world st) ''u1'') (example_campaign st) i Email
       = LaunchQueued Email"
    "launch_channel ?f (connected_integrations (launch_world st) ''u1'') (example_campaign st) i Social
       = LaunchFailed Social ''No integration connected''" for st i
    by (simp_all add: connected_integrations_def launch_world_def launch_channel_def launch_try_def
        example_campaign_def good_object_def)
  have st: "camp_status (example_campaign s) = s" for s
    by (simp add: example_campaign_def)
  note inst = campaign_lifecycle [where w = empty_world and e = ?e and rq = example_request
      and f = ?f and u = ?u and k = 0 and x = ?v and user = "''u1''"]
  from inst [of "launch_of None" ?v, THEN conjunct1] some
  have 1: "\<exists>c. campaigns (snd (POST ?e example_request empty_world)) = [c] \<and> camp_status c = ''ready''"
    by (simp add: empty_world_def)
  from inst [of "launch_of None" ?v, THEN conjunct2, THEN conjunct1, THEN mp, OF own]
  have 2: "camp_status (campaigns (snd (launch_POST ?f (launch_of None) ?v)) ! 0) = ''partially_launched''"
    by (auto simp: Let_def c0 u0 i0 chs loops st)
  from inst [of "launch_of (Some [Email])" ?v, THEN conjunct2, THEN conjunct1, THEN mp, OF own]
  have 3: "camp_status (campaigns (snd (launch_POST ?f (launch_of (Some [Email])) ?v)) ! 0) = ''launched''"
    by (auto simp: Let_def c0 u0 i0 chs loops st)
  from inst [of "launch_of (Some [Social])" ?v, THEN conjunct2, THEN conjunct1, THEN mp, OF own]
  have 4: "launch_POST ?f (launch_of (Some [Social])) ?v = (Inl (Error ''body is not defined''), ?v)"
    by (auto simp: Let_def c0 u0 i0 chs loops st)
  from inst [of "launch_of None" "launch_world ''launched''", THEN conjunct2, THEN conjunct1, THEN mp, OF own]
  have 5: "launch_POST ?f (launch_of None) (launch_world ''launched'')
      = (Inl (Error ''body is not defined''), launch_world ''launched'')"
    by (auto simp: Let_def c0 u0 i0 chs st)
  from inst [of "launch_of None" ?v, THEN conjunct2, THEN conjunct2, THEN mp, OF ok]
  have 6: "camp_status (campaigns (snd (PATCH ''u1'' 0 ?u ?v)) ! 0) = ''paused''"
    by (simp add: status_update_def)
  from 1 2 3 4 5 6 show ?thesis by blast
qed

end
